theory Spec2Isabelle
  imports Complex_Main "HOL-Library.Word"
begin

section \<open>Numbers of the vertex candidate\<close>

text \<open>
  The C++ type \<^verbatim>\<open>double\<close>. A finite value is carried as an exact real; the three
  special values of IEEE 754 are kept, with the rules the standard gives them, because
  \<^verbatim>\<open>Compute\<close> divides by counts that can be zero and the comparisons of the source
  are all false on a NaN. Rounding, overflow of finite results and the sign of zero
  are not modelled (a zero divisor is taken as \<^verbatim>\<open>+0.0\<close>, which is what the
  conversion of a \<^verbatim>\<open>size_t\<close> and the sum of non-negative weights give).
\<close>

datatype double = Fin real | PInf | NInf | NaN

instantiation double :: "{plus, minus, uminus, times, inverse, abs, ord}"
begin

fun plus_double :: "double \<Rightarrow> double \<Rightarrow> double" where
  "Fin a + Fin b = Fin (a + b)"
| "NaN + _ = NaN"
| "_ + NaN = NaN"
| "PInf + NInf = NaN"
| "NInf + PInf = NaN"
| "PInf + _ = PInf"
| "_ + PInf = PInf"
| "NInf + _ = NInf"
| "_ + NInf = NInf"

fun uminus_double :: "double \<Rightarrow> double" where
  "- Fin a = Fin (- a)"
| "- PInf = NInf"
| "- NInf = PInf"
| "- NaN = NaN"

definition minus_double :: "double \<Rightarrow> double \<Rightarrow> double" where
  "a - b = a + (- b :: double)"

fun times_double :: "double \<Rightarrow> double \<Rightarrow> double" where
  "Fin a * Fin b = Fin (a * b)"
| "NaN * _ = NaN"
| "_ * NaN = NaN"
| "Fin a * PInf = (if a = 0 then NaN else if 0 < a then PInf else NInf)"
| "Fin a * NInf = (if a = 0 then NaN else if 0 < a then NInf else PInf)"
| "PInf * Fin b = (if b = 0 then NaN else if 0 < b then PInf else NInf)"
| "NInf * Fin b = (if b = 0 then NaN else if 0 < b then NInf else PInf)"
| "PInf * PInf = PInf"
| "PInf * NInf = NInf"
| "NInf * PInf = NInf"
| "NInf * NInf = PInf"

fun divide_double :: "double \<Rightarrow> double \<Rightarrow> double" where
  "divide_double (Fin a) (Fin b) =
     (if b = 0 then (if a = 0 then NaN else if 0 < a then PInf else NInf)
      else Fin (a / b))"
| "divide_double NaN _ = NaN"
| "divide_double _ NaN = NaN"
| "divide_double (Fin a) PInf = Fin 0"
| "divide_double (Fin a) NInf = Fin 0"
| "divide_double PInf (Fin b) = (if 0 \<le> b then PInf else NInf)"
| "divide_double NInf (Fin b) = (if 0 \<le> b then NInf else PInf)"
| "divide_double PInf PInf = NaN"
| "divide_double PInf NInf = NaN"
| "divide_double NInf PInf = NaN"
| "divide_double NInf NInf = NaN"

definition inverse_double :: "double \<Rightarrow> double" where
  "inverse_double a = divide (Fin 1) a"

fun abs_double :: "double \<Rightarrow> double" where
  "\<bar>Fin a\<bar> = Fin \<bar>a\<bar>"
| "\<bar>PInf\<bar> = PInf"
| "\<bar>NInf\<bar> = PInf"
| "\<bar>NaN\<bar> = NaN"

fun less_double :: "double \<Rightarrow> double \<Rightarrow> bool" where
  "Fin a < Fin b \<longleftrightarrow> a < b"
| "NaN < _ \<longleftrightarrow> False"
| "_ < NaN \<longleftrightarrow> False"
| "_ < NInf \<longleftrightarrow> False"
| "PInf < _ \<longleftrightarrow> False"
| "NInf < _ \<longleftrightarrow> True"
| "_ < PInf \<longleftrightarrow> True"

fun less_eq_double :: "double \<Rightarrow> double \<Rightarrow> bool" where
  "Fin a \<le> Fin b \<longleftrightarrow> a \<le> b"
| "NaN \<le> _ \<longleftrightarrow> False"
| "_ \<le> NaN \<longleftrightarrow> False"
| "NInf \<le> _ \<longleftrightarrow> True"
| "_ \<le> PInf \<longleftrightarrow> True"
| "_ \<le> NInf \<longleftrightarrow> False"
| "PInf \<le> _ \<longleftrightarrow> False"

instance ..

end

text \<open>The functions of \<^verbatim>\<open>math.h\<close> that the source calls.\<close>

fun sqrt_double :: "double \<Rightarrow> double" where
  "sqrt_double (Fin a) = (if 0 \<le> a then Fin (sqrt a) else NaN)"
| "sqrt_double PInf = PInf"
| "sqrt_double NInf = NaN"
| "sqrt_double NaN = NaN"

fun asin :: "double \<Rightarrow> double" where
  "asin (Fin a) = (if \<bar>a\<bar> \<le> 1 then Fin (arcsin a) else NaN)"
| "asin _ = NaN"

fun acos :: "double \<Rightarrow> double" where
  "acos (Fin a) = (if \<bar>a\<bar> \<le> 1 then Fin (arccos a) else NaN)"
| "acos _ = NaN"

text \<open>\<^verbatim>\<open>pow(x, n)\<close> for a whole exponent \<open>n\<close> (the source only uses 12).\<close>

fun pow :: "double \<Rightarrow> nat \<Rightarrow> double" where
  "pow (Fin a) n = Fin (a ^ n)"
| "pow PInf n = (if n = 0 then Fin 1 else PInf)"
| "pow NInf n = (if n = 0 then Fin 1 else if even n then PInf else NInf)"
| "pow NaN n = (if n = 0 then Fin 1 else NaN)"

definition fabs :: "double \<Rightarrow> double" where
  "fabs a = \<bar>a\<bar>"

text \<open>The conversion of a \<^verbatim>\<open>size_t\<close> to \<^verbatim>\<open>double\<close>.\<close>

definition of_size_t :: "nat \<Rightarrow> double" where
  "of_size_t n = Fin (real n)"

definition TMath_Pi :: double where
  "TMath_Pi = Fin pi"

definition isfinite :: "double \<Rightarrow> bool" where
  "isfinite a = (case a of Fin _ \<Rightarrow> True | _ \<Rightarrow> False)"

text \<open>
  A variable of type \<^verbatim>\<open>size_t\<close> is a 64-bit word; \<^verbatim>\<open>size() - 1\<close> is computed
  in it, so it wraps around on an empty container.
\<close>

type_synonym size_t = "64 word"

definition size_minus_1 :: "'a list \<Rightarrow> nat" where
  "size_minus_1 xs = unat ((of_nat (length xs) :: size_t) - 1)"

subsection \<open>ROOT's vectors\<close>

datatype TVector3 = TVector3 (X: double) (Y: double) (Z: double)

datatype TVector2 = TVector2 double double

definition vsub :: "TVector3 \<Rightarrow> TVector3 \<Rightarrow> TVector3" where
  "vsub a b = TVector3 (X a - X b) (Y a - Y b) (Z a - Z b)"

definition vscale :: "TVector3 \<Rightarrow> double \<Rightarrow> TVector3" where
  "vscale v a = TVector3 (a * X v) (a * Y v) (a * Z v)"

definition Mag :: "TVector3 \<Rightarrow> double" where
  "Mag v = sqrt_double (X v * X v + Y v * Y v + Z v * Z v)"

definition Dot :: "TVector3 \<Rightarrow> TVector3 \<Rightarrow> double" where
  "Dot a b = X a * X b + Y a * Y b + Z a * Z b"

definition origin :: TVector3 where
  "origin = TVector3 (Fin 0) (Fin 0) (Fin 0)"


section \<open>Collaborators of the vertex candidate\<close>

text \<open>
  Tracks, nodes and segments are objects of the track graph, held by pointer: a
  pointer is a number, a pointer that may be null an \<open>option\<close>. The graph itself
  (\<^verbatim>\<open>PmaTrack3D\<close>, \<^verbatim>\<open>PmaNode3D\<close>, \<^verbatim>\<open>PmaSegment3D\<close>), the geometry service and the
  functions of \<^verbatim>\<open>Utilities.h\<close> are not part of the candidate: their state is a
  value of type \<open>'g\<close>, and every member function the candidate calls is a field of
  the record below, reading that state or returning the new one.
\<close>

type_synonym Track3D = nat
type_synonym Node3D = nat
type_synonym Segment3D = nat

datatype View = kU | kV | kZ

record TrkCandidate =
  Track :: Track3D
  Key :: int

record 'g externals =
  GetRoot :: "'g \<Rightarrow> Track3D \<Rightarrow> Track3D option"
  IsAttachedTo :: "'g \<Rightarrow> Track3D \<Rightarrow> Track3D \<Rightarrow> bool"
  Length :: "'g \<Rightarrow> Track3D \<Rightarrow> double"
  Nodes :: "'g \<Rightarrow> Track3D \<Rightarrow> Node3D list"
  NextSegment :: "'g \<Rightarrow> Track3D \<Rightarrow> Node3D \<Rightarrow> Segment3D option"
  CanFlip :: "'g \<Rightarrow> Track3D \<Rightarrow> bool"
  GetBranches :: "'g \<Rightarrow> Track3D \<Rightarrow> bool \<times> Track3D list"
  Seg_Length :: "'g \<Rightarrow> Segment3D \<Rightarrow> double"
  Seg_Prev :: "'g \<Rightarrow> Segment3D \<Rightarrow> Node3D option"
  Seg_Next :: "'g \<Rightarrow> Segment3D \<Rightarrow> nat \<Rightarrow> Node3D option"
  Seg_Parent :: "'g \<Rightarrow> Segment3D \<Rightarrow> Track3D"
  GetDistance2To :: "'g \<Rightarrow> Segment3D \<Rightarrow> TVector3 \<Rightarrow> double"
  GetDistance2To_2D :: "'g \<Rightarrow> Segment3D \<Rightarrow> TVector2 \<Rightarrow> View \<Rightarrow> double"
  Point3D :: "'g \<Rightarrow> Node3D \<Rightarrow> TVector3"
  TPC :: "'g \<Rightarrow> Node3D \<Rightarrow> int"
  Cryo :: "'g \<Rightarrow> Node3D \<Rightarrow> int"
  Node_Prev :: "'g \<Rightarrow> Node3D \<Rightarrow> Segment3D option"
  Node_Next :: "'g \<Rightarrow> Node3D \<Rightarrow> nat \<Rightarrow> Segment3D option"
  Node_NextCount :: "'g \<Rightarrow> Node3D \<Rightarrow> nat"
  Node_GetBranches :: "'g \<Rightarrow> Node3D \<Rightarrow> Track3D list"
  SetPoint3D :: "Node3D \<Rightarrow> TVector3 \<Rightarrow> 'g \<Rightarrow> 'g"
  AttachTo :: "Track3D \<Rightarrow> Node3D option \<Rightarrow> bool \<Rightarrow> 'g \<Rightarrow> bool \<times> 'g"
  AttachBackTo :: "Track3D \<Rightarrow> Node3D option \<Rightarrow> 'g \<Rightarrow> bool \<times> 'g"
  Flip :: "Track3D \<Rightarrow> 'g \<Rightarrow> 'g"
  InsertNode :: "Track3D \<Rightarrow> TVector3 \<Rightarrow> nat \<Rightarrow> int \<Rightarrow> int \<Rightarrow> 'g \<Rightarrow> 'g"
  Split :: "Track3D \<Rightarrow> nat \<Rightarrow> 'g \<Rightarrow> Track3D option \<times> 'g"
  MakeProjection :: "Track3D \<Rightarrow> 'g \<Rightarrow> 'g"
  TuneFullTree :: "Track3D \<Rightarrow> 'g \<Rightarrow> double \<times> 'g"
  delete_Track :: "Track3D \<Rightarrow> 'g \<Rightarrow> 'g"
  SolveLeastSquares3D :: "(TVector3 \<times> TVector3) list \<Rightarrow> double \<times> TVector3"
  Dist2 :: "TVector3 \<Rightarrow> TVector3 \<Rightarrow> double"
  GetProjectionToSegment :: "TVector3 \<Rightarrow> TVector3 \<Rightarrow> TVector3 \<Rightarrow> TVector3"
  GetSegmentProjVector :: "TVector3 \<Rightarrow> TVector3 \<Rightarrow> TVector3 \<Rightarrow> double"
  GetProjectionToPlane :: "TVector3 \<Rightarrow> View \<Rightarrow> int \<Rightarrow> int \<Rightarrow> TVector2"
  HasPlane :: "int \<Rightarrow> int \<Rightarrow> View \<Rightarrow> bool"

text \<open>
  What ends a call early: the two exceptions the source throws, and the two kinds of
  undefined behaviour it can run into (a null pointer dereferenced, a vector indexed
  out of range).
\<close>

datatype error = BrokenTrack | VertexWithNoSegments | NullPointer | OutOfRange

definition vector_at :: "'a list \<Rightarrow> nat \<Rightarrow> error + 'a" where
  "vector_at xs i = (if i < length xs then Inr (xs ! i) else Inl OutOfRange)"

definition deref :: "'a option \<Rightarrow> error + 'a" where
  "deref p = (case p of None \<Rightarrow> Inl NullPointer | Some x \<Rightarrow> Inr x)"

definition vector_front :: "'a list \<Rightarrow> error + 'a" where
  "vector_front xs = (case xs of [] \<Rightarrow> Inl OutOfRange | x # _ \<Rightarrow> Inr x)"

definition vector_back :: "'a list \<Rightarrow> error + 'a" where
  "vector_back xs = (if xs = [] then Inl OutOfRange else Inr (last xs))"

text \<open>\<^verbatim>\<open>for (size_t n = lo; n < hi; n++) body\<close>, the body threading a state.\<close>

function for_loop :: "nat \<Rightarrow> nat \<Rightarrow> (nat \<Rightarrow> 's \<Rightarrow> error + 's) \<Rightarrow> 's \<Rightarrow> error + 's" where
  "for_loop n hi body s =
     (if n < hi
      then (case body n s of Inl e \<Rightarrow> Inl e | Inr s' \<Rightarrow> for_loop (Suc n) hi body s')
      else Inr s)"
  by pat_completeness auto
termination
  by (relation "measure (\<lambda>(n, hi, body, s). hi - n)") auto

declare for_loop.simps [simp del]

section \<open>The vertex candidate\<close>

record VtxCandidate =
  fAssigned :: "(TrkCandidate \<times> nat) list"
  fCenter :: TVector3
  fErr :: TVector3
  fMse :: double
  fMse2D :: double
  fSegMinLength :: double
  tracksJoined :: bool

definition kMaxDistToTrack :: double where
  "kMaxDistToTrack = Fin 4"

definition kMinDistToNode :: double where
  "kMinDistToNode = Fin 2"

subsection \<open>Membership\<close>

primrec Has_in :: "(TrkCandidate \<times> nat) list \<Rightarrow> Track3D \<Rightarrow> bool" where
  "Has_in [] trk = False"
| "Has_in (t # ts) trk = (if trk = Track (fst t) then True else Has_in ts trk)"

definition Has :: "VtxCandidate \<Rightarrow> Track3D \<Rightarrow> bool" where
  "Has c trk = Has_in (fAssigned c) trk"

primrec IsAttached_in ::
  "'g externals \<Rightarrow> 'g \<Rightarrow> Track3D \<Rightarrow> (TrkCandidate \<times> nat) list \<Rightarrow> error + bool" where
  "IsAttached_in E g rootTrk [] = Inr False"
| "IsAttached_in E g rootTrk (t # ts) =
     (case GetRoot E g (Track (fst t)) of
        None \<Rightarrow> Inl BrokenTrack
      | Some rootAssn \<Rightarrow>
          if IsAttachedTo E g rootTrk rootAssn then Inr True
          else IsAttached_in E g rootTrk ts)"

definition IsAttached :: "'g externals \<Rightarrow> 'g \<Rightarrow> VtxCandidate \<Rightarrow> Track3D \<Rightarrow> error + bool" where
  "IsAttached E g c trk =
     (case GetRoot E g trk of
        None \<Rightarrow> Inl BrokenTrack
      | Some rootTrk \<Rightarrow> IsAttached_in E g rootTrk (fAssigned c))"

subsection \<open>The fit: \<^verbatim>\<open>Compute\<close>\<close>

text \<open>The weight of a segment, from the separation \<open>dy\<close> of its ends and its length.\<close>

definition Compute_weight :: "double \<Rightarrow> double \<Rightarrow> double" where
  "Compute_weight dy segLength =
     (let fy_norm = asin (fabs dy / segLength) / (Fin 0.5 * TMath_Pi);
          w = Fin 1 - pow (fy_norm - Fin 1) 12
      in if w < Fin 0.3 then Fin 0.3 else w)"

text \<open>
  The first loop: one entry of \<^verbatim>\<open>segments\<close>, \<^verbatim>\<open>lines\<close> and \<^verbatim>\<open>weights\<close> for
  every assigned pair whose segment is long enough.
\<close>

primrec Compute_collect ::
  "'g externals \<Rightarrow> 'g \<Rightarrow> double \<Rightarrow> (TrkCandidate \<times> nat) list
    \<Rightarrow> error + (Segment3D \<times> (TVector3 \<times> TVector3) \<times> double) list" where
  "Compute_collect E g minLength [] = Inr []"
| "Compute_collect E g minLength (v # vs) =
     (case vector_at (Nodes E g (Track (fst v))) (snd v) of
        Inl e \<Rightarrow> Inl e
      | Inr vtx1 \<Rightarrow>
     (case NextSegment E g (Track (fst v)) vtx1 of
        None \<Rightarrow> Inl NullPointer
      | Some seg \<Rightarrow>
          if minLength \<le> Seg_Length E g seg then
            (case Seg_Next E g seg 0 of
               None \<Rightarrow> Inl NullPointer
             | Some vtx2 \<Rightarrow>
                 (case Compute_collect E g minLength vs of
                    Inl e \<Rightarrow> Inl e
                  | Inr rest \<Rightarrow>
                      let endpoints = (Point3D E g vtx1, Point3D E g vtx2);
                          dy = Y (fst endpoints) - Y (snd endpoints);
                          w = Compute_weight dy (Seg_Length E g seg)
                      in Inr ((seg, endpoints, w) # rest)))
          else Compute_collect E g minLength vs))"

text \<open>The second loop: the sums behind \<^verbatim>\<open>fErr\<close>, \<^verbatim>\<open>fCenter\<close> and \<^verbatim>\<open>wsum\<close>.\<close>

fun Compute_sums ::
  "'g externals \<Rightarrow> 'g \<Rightarrow> TVector3 \<Rightarrow> (Segment3D \<times> (TVector3 \<times> TVector3) \<times> double) list
    \<Rightarrow> TVector3 \<times> TVector3 \<times> double \<Rightarrow> error + (TVector3 \<times> TVector3 \<times> double)" where
  "Compute_sums E g result [] acc = Inr acc"
| "Compute_sums E g result ((seg, line, w) # rest) (err, cen, wsum) =
     (case Seg_Prev E g seg of
        None \<Rightarrow> Inl NullPointer
      | Some vprev \<Rightarrow>
     (case Seg_Next E g seg 0 of
        None \<Rightarrow> Inl NullPointer
      | Some vnext \<Rightarrow>
          let pproj = GetProjectionToSegment E result (Point3D E g vprev) (Point3D E g vnext)
          in Compute_sums E g result rest
               (TVector3 (X err + w * w) (Y err + Fin 1) (Z err + Fin 1),
                TVector3 (X cen + w * X pproj) (Y cen + Y pproj) (Z cen + Z pproj),
                wsum + w)))"

definition Compute :: "'g externals \<Rightarrow> 'g \<Rightarrow> VtxCandidate \<Rightarrow> error + (double \<times> VtxCandidate)" where
  "Compute E g c =
     (case Compute_collect E g (fSegMinLength c) (fAssigned c) of
        Inl e \<Rightarrow> Inl e
      | Inr segs \<Rightarrow>
          let (resultMse, result) = SolveLeastSquares3D E (map (\<lambda>(seg, line, w). line) segs)
          in if resultMse < Fin 0
             then Inr (Fin 1000000, c\<lparr>fCenter := origin, fErr := origin\<rparr>)
             else
               (case Compute_sums E g result segs (origin, origin, Fin 0) of
                  Inl e \<Rightarrow> Inl e
                | Inr (err, cen, wsum) \<Rightarrow>
                    let n = of_size_t (length segs);
                        cen' = TVector3 (X cen / wsum) (Y cen / n) (Z cen / n);
                        err' = vscale err (Fin 1 / n)
                    in Inr (resultMse,
                            c\<lparr>fCenter := cen',
                              fErr := TVector3 (sqrt_double (X err')) (sqrt_double (Y err'))
                                        (sqrt_double (Z err'))\<rparr>)))"

subsection \<open>The residual in the readout planes: \<^verbatim>\<open>ComputeMse2D\<close>\<close>

definition plane_term ::
  "'g externals \<Rightarrow> 'g \<Rightarrow> TVector3 \<Rightarrow> Segment3D option \<Rightarrow> int \<Rightarrow> int \<Rightarrow> View
    \<Rightarrow> double \<times> nat \<Rightarrow> error + (double \<times> nat)" where
  "plane_term E g center seg tpc cryo view mk =
     (if HasPlane E tpc cryo view then
        (case seg of
           None \<Rightarrow> Inl NullPointer
         | Some s \<Rightarrow>
             Inr (fst mk + GetDistance2To_2D E g s (GetProjectionToPlane E center view tpc cryo) view,
                  Suc (snd mk)))
      else Inr mk)"

primrec ComputeMse2D_sum ::
  "'g externals \<Rightarrow> 'g \<Rightarrow> TVector3 \<Rightarrow> (TrkCandidate \<times> nat) list \<Rightarrow> double \<Rightarrow> error + double" where
  "ComputeMse2D_sum E g center [] mse = Inr mse"
| "ComputeMse2D_sum E g center (t # ts) mse =
     (case vector_at (Nodes E g (Track (fst t))) (snd t) of
        Inl e \<Rightarrow> Inl e
      | Inr node \<Rightarrow>
          let seg = NextSegment E g (Track (fst t)) node;
              tpc = TPC E g node;
              cryo = Cryo E g node
          in (case plane_term E g center seg tpc cryo kU (Fin 0, 0) of
                Inl e \<Rightarrow> Inl e
              | Inr mk1 \<Rightarrow>
             (case plane_term E g center seg tpc cryo kV mk1 of
                Inl e \<Rightarrow> Inl e
              | Inr mk2 \<Rightarrow>
             (case plane_term E g center seg tpc cryo kZ mk2 of
                Inl e \<Rightarrow> Inl e
              | Inr mk3 \<Rightarrow>
                  ComputeMse2D_sum E g center ts (mse + fst mk3 / of_size_t (snd mk3))))))"

definition ComputeMse2D :: "'g externals \<Rightarrow> 'g \<Rightarrow> VtxCandidate \<Rightarrow> error + double" where
  "ComputeMse2D E g c =
     (case ComputeMse2D_sum E g (fCenter c) (fAssigned c) (Fin 0) of
        Inl e \<Rightarrow> Inl e
      | Inr mse \<Rightarrow> Inr (mse / of_size_t (length (fAssigned c))))"


subsection \<open>Growing a candidate: \<^verbatim>\<open>Add\<close>\<close>

text \<open>
  \<^verbatim>\<open>fAssigned.back().second = n\<close> and \<^verbatim>\<open>fAssigned.front().second = m\<close>; both are
  only reached after the new pair has been appended, on a vector that is not empty.
\<close>

definition set_back_second :: "(TrkCandidate \<times> nat) list \<Rightarrow> nat \<Rightarrow> (TrkCandidate \<times> nat) list" where
  "set_back_second xs n = butlast xs @ [(fst (last xs), n)]"

definition set_front_second :: "(TrkCandidate \<times> nat) list \<Rightarrow> nat \<Rightarrow> (TrkCandidate \<times> nat) list" where
  "set_front_second xs m = (fst (hd xs), m) # tl xs"

text \<open>The branch \<^verbatim>\<open>fAssigned.size() > 2\<close>: the loop over the segments of the new track.\<close>

definition Add_many_body ::
  "'g externals \<Rightarrow> 'g \<Rightarrow> TrkCandidate \<Rightarrow> nat \<Rightarrow> VtxCandidate \<times> double \<times> nat \<times> double
    \<Rightarrow> error + (VtxCandidate \<times> double \<times> nat \<times> double)" where
  "Add_many_body E g trk n s =
     (case s of (c, min_mse, n_best, d_best) \<Rightarrow>
      (case vector_at (Nodes E g (Track trk)) n of
         Inl e \<Rightarrow> Inl e
       | Inr node \<Rightarrow>
      (case NextSegment E g (Track trk) node of
         None \<Rightarrow> Inl NullPointer
       | Some seg \<Rightarrow>
           if Seg_Length E g seg < fSegMinLength c then Inr s
           else
             (case Compute E g (c\<lparr>fAssigned := set_back_second (fAssigned c) n\<rparr>) of
                Inl e \<Rightarrow> Inl e
              | Inr (mse, c') \<Rightarrow>
                  if mse < min_mse then
                    (let d = sqrt_double (GetDistance2To E g seg (fCenter c'))
                     in if d < d_best then Inr (c', mse, n, d)
                        else Inr (c', min_mse, n_best, d_best))
                  else Inr (c', min_mse, n_best, d_best)))))"

definition Add_many :: "'g externals \<Rightarrow> 'g \<Rightarrow> TrkCandidate \<Rightarrow> VtxCandidate \<Rightarrow> error + (bool \<times> VtxCandidate)" where
  "Add_many E g trk c =
     (case for_loop 0 (size_minus_1 (Nodes E g (Track trk))) (Add_many_body E g trk)
             (c, kMaxDistToTrack * kMaxDistToTrack, 0, kMaxDistToTrack) of
        Inl e \<Rightarrow> Inl e
      | Inr (c1, min_mse, n_best, d_best) \<Rightarrow>
          if d_best < kMaxDistToTrack then
            (case Compute E g (c1\<lparr>fAssigned := set_back_second (fAssigned c1) n_best\<rparr>) of
               Inl e \<Rightarrow> Inl e
             | Inr (mse, c2) \<Rightarrow>
                 (case ComputeMse2D E g (c2\<lparr>fMse := mse\<rparr>) of
                    Inl e \<Rightarrow> Inl e
                  | Inr mse2D \<Rightarrow> Inr (True, c2\<lparr>fMse := mse, fMse2D := mse2D\<rparr>)))
          else
            (case Compute E g (c1\<lparr>fAssigned := butlast (fAssigned c1)\<rparr>) of
               Inl e \<Rightarrow> Inl e
             | Inr (mse, c2) \<Rightarrow>
                 (case ComputeMse2D E g (c2\<lparr>fMse := mse\<rparr>) of
                    Inl e \<Rightarrow> Inl e
                  | Inr mse2D \<Rightarrow> Inr (False, c2\<lparr>fMse := mse, fMse2D := mse2D\<rparr>))))"

text \<open>
  The branch \<^verbatim>\<open>fAssigned.size() == 2\<close>: the segment \<open>m\<close> of the first track and the
  segment \<open>n\<close> of the new one are searched together. The state of the loops is the
  candidate with \<^verbatim>\<open>min_mse\<close>, \<^verbatim>\<open>n_best\<close>, \<^verbatim>\<open>m_best\<close>, \<^verbatim>\<open>d_best\<close>, \<^verbatim>\<open>l_best\<close>.
\<close>

type_synonym pair_search = "VtxCandidate \<times> double \<times> nat \<times> nat \<times> double \<times> double"

definition Add_second_inner ::
  "'g externals \<Rightarrow> 'g \<Rightarrow> TrkCandidate \<Rightarrow> nat \<Rightarrow> double \<Rightarrow> nat \<Rightarrow> pair_search \<Rightarrow> error + pair_search" where
  "Add_second_inner E g trk m lm n s =
     (case s of (c, min_mse, n_best, m_best, d_best, l_best) \<Rightarrow>
      (case vector_at (Nodes E g (Track trk)) n of
         Inl e \<Rightarrow> Inl e
       | Inr node \<Rightarrow>
      (case NextSegment E g (Track trk) node of
         None \<Rightarrow> Inl NullPointer
       | Some seg_n \<Rightarrow>
           let ln = Seg_Length E g seg_n
           in if ln < fSegMinLength c then Inr s
              else
                (case Compute E g (c\<lparr>fAssigned := set_back_second (fAssigned c) n\<rparr>) of
                   Inl e \<Rightarrow> Inl e
                 | Inr (mse, c') \<Rightarrow>
                     (case ComputeMse2D E g c' of
                        Inl e \<Rightarrow> Inl e
                      | Inr mse2D \<Rightarrow>
                          let d = sqrt_double mse2D
                          in if d < d_best then
                               (let d_dist = (d_best - d) / d_best
                                in if Fin 0.8 * d_dist * l_best < lm + ln
                                   then Inr (c', mse, n, m, d, lm + ln)
                                   else Inr (c', min_mse, n_best, m_best, d_best, l_best))
                             else Inr (c', min_mse, n_best, m_best, d_best, l_best))))))"

definition Add_second_outer ::
  "'g externals \<Rightarrow> 'g \<Rightarrow> TrkCandidate \<Rightarrow> Track3D \<Rightarrow> nat \<Rightarrow> pair_search \<Rightarrow> error + pair_search" where
  "Add_second_outer E g trk p0 m s =
     (case s of (c, rest) \<Rightarrow>
      (case vector_at (Nodes E g p0) m of
         Inl e \<Rightarrow> Inl e
       | Inr node \<Rightarrow>
      (case NextSegment E g p0 node of
         None \<Rightarrow> Inl NullPointer
       | Some seg_m \<Rightarrow>
           let lm = Seg_Length E g seg_m
           in if lm < fSegMinLength c then Inr s
              else for_loop 0 (size_minus_1 (Nodes E g (Track trk)))
                     (Add_second_inner E g trk m lm)
                     (c\<lparr>fAssigned := set_front_second (fAssigned c) m\<rparr>, rest))))"

definition Add_second :: "'g externals \<Rightarrow> 'g \<Rightarrow> TrkCandidate \<Rightarrow> VtxCandidate \<Rightarrow> error + (bool \<times> VtxCandidate)" where
  "Add_second E g trk c =
     (let p0 = Track (fst (hd (fAssigned c)))
      in case for_loop 0 (size_minus_1 (Nodes E g p0)) (Add_second_outer E g trk p0)
                (c, kMaxDistToTrack * kMaxDistToTrack, 0, 0, kMaxDistToTrack, Fin 0) of
           Inl e \<Rightarrow> Inl e
         | Inr (c1, min_mse, n_best, m_best, d_best, l_best) \<Rightarrow>
             if d_best < kMaxDistToTrack then
               (case Compute E g
                       (c1\<lparr>fAssigned :=
                            set_back_second (set_front_second (fAssigned c1) m_best) n_best\<rparr>) of
                  Inl e \<Rightarrow> Inl e
                | Inr (mse, c2) \<Rightarrow>
                    (case ComputeMse2D E g (c2\<lparr>fMse := mse\<rparr>) of
                       Inl e \<Rightarrow> Inl e
                     | Inr mse2D \<Rightarrow> Inr (True, c2\<lparr>fMse := mse, fMse2D := mse2D\<rparr>)))
             else
               Inr (False, c1\<lparr>fAssigned := butlast (fAssigned c1), fCenter := origin,
                              fMse := Fin 0, fMse2D := Fin 0\<rparr>))"

text \<open>
  The branch of the first track: the loop returns as soon as one segment of the track
  is long enough.
\<close>

function Add_first_scan :: "'g externals \<Rightarrow> 'g \<Rightarrow> TrkCandidate \<Rightarrow> double \<Rightarrow> nat \<Rightarrow> nat \<Rightarrow> error + bool" where
  "Add_first_scan E g trk minLength n hi =
     (if n < hi then
        (case vector_at (Nodes E g (Track trk)) n of
           Inl e \<Rightarrow> Inl e
         | Inr node \<Rightarrow>
        (case NextSegment E g (Track trk) node of
           None \<Rightarrow> Inl NullPointer
         | Some seg \<Rightarrow>
             if minLength \<le> Seg_Length E g seg then Inr True
             else Add_first_scan E g trk minLength (Suc n) hi))
      else Inr False)"
  by pat_completeness auto
termination
  by (relation "measure (\<lambda>(E, g, trk, minLength, n, hi). hi - n)") auto

declare Add_first_scan.simps [simp del]

definition Add_first :: "'g externals \<Rightarrow> 'g \<Rightarrow> TrkCandidate \<Rightarrow> VtxCandidate \<Rightarrow> error + (bool \<times> VtxCandidate)" where
  "Add_first E g trk c =
     (case Add_first_scan E g trk (fSegMinLength c) 0 (size_minus_1 (Nodes E g (Track trk))) of
        Inl e \<Rightarrow> Inl e
      | Inr found \<Rightarrow>
          if found then Inr (True, c)
          else Inr (False, c\<lparr>fAssigned := butlast (fAssigned c), fCenter := origin,
                             fMse := Fin 0, fMse2D := Fin 0\<rparr>))"

definition Add :: "'g externals \<Rightarrow> 'g \<Rightarrow> TrkCandidate \<Rightarrow> VtxCandidate \<Rightarrow> error + (bool \<times> VtxCandidate)" where
  "Add E g trk c =
     (case IsAttached E g c (Track trk) of
        Inl e \<Rightarrow> Inl e
      | Inr attached \<Rightarrow>
          if attached then Inr (False, c)
          else
            (let c0 = c\<lparr>fAssigned := fAssigned c @ [(trk, 0)]\<rparr>
             in if 2 < length (fAssigned c0) then Add_many E g trk c0
                else if length (fAssigned c0) = 2 then Add_second E g trk c0
                else Add_first E g trk c0))"

subsection \<open>Comparing and merging candidates\<close>

definition Test :: "VtxCandidate \<Rightarrow> VtxCandidate \<Rightarrow> double" where
  "Test c other =
     (let dx = X (fCenter c) - X (fCenter other);
          dy = Y (fCenter c) - Y (fCenter other);
          dz = Z (fCenter c) - Z (fCenter other);
          dw = X (fErr c) * X (fErr other) * dx * dx
             + Y (fErr c) * Y (fErr other) * dy * dy
             + Z (fErr c) * Z (fErr other) * dz * dz
      in sqrt_double dw)"

text \<open>
  The loop of \<^verbatim>\<open>MergeWith\<close> over the pairs of \<open>other\<close>. It returns the candidate as
  the loop left it, the count \<^verbatim>\<open>ntrk\<close> of the pairs appended, and whether it ran to
  its end (\<open>False\<close>: it returned from inside, on a track already attached).
\<close>

fun MergeWith_append ::
  "'g externals \<Rightarrow> 'g \<Rightarrow> (TrkCandidate \<times> nat) list \<Rightarrow> VtxCandidate \<Rightarrow> nat
    \<Rightarrow> error + (bool \<times> VtxCandidate \<times> nat)" where
  "MergeWith_append E g [] c ntrk = Inr (True, c, ntrk)"
| "MergeWith_append E g (t # ts) c ntrk =
     (case IsAttached E g c (Track (fst t)) of
        Inl e \<Rightarrow> Inl e
      | Inr attached \<Rightarrow>
          if attached then Inr (False, c, ntrk)
          else if \<not> Has c (Track (fst t))
          then MergeWith_append E g ts (c\<lparr>fAssigned := fAssigned c @ [t]\<rparr>) (Suc ntrk)
          else MergeWith_append E g ts c ntrk)"

text \<open>
  \<open>other\<close> is passed by constant reference and only read; the value of
  \<^verbatim>\<open>Test(other)\<close> goes to the log alone.
\<close>

definition MergeWith :: "'g externals \<Rightarrow> 'g \<Rightarrow> VtxCandidate \<Rightarrow> VtxCandidate \<Rightarrow> error + (bool \<times> VtxCandidate)" where
  "MergeWith E g other c =
     (let d = sqrt_double (Dist2 E (fCenter c) (fCenter other))
      in if Fin 10 < d then Inr (False, c)
         else
           (case MergeWith_append E g (fAssigned other) c 0 of
              Inl e \<Rightarrow> Inl e
            | Inr (completed, c1, ntrk) \<Rightarrow>
                if \<not> completed then Inr (False, c1)
                else if ntrk \<noteq> 0 then
                  (case Compute E g c1 of
                     Inl e \<Rightarrow> Inl e
                   | Inr (mse, c2) \<Rightarrow>
                       if mse < Fin 1 then
                         (case ComputeMse2D E g (c2\<lparr>fMse := mse\<rparr>) of
                            Inl e \<Rightarrow> Inl e
                          | Inr mse2D \<Rightarrow> Inr (True, c2\<lparr>fMse := mse, fMse2D := mse2D\<rparr>))
                       else
                         (case Compute E g (c2\<lparr>fAssigned := (butlast ^^ ntrk) (fAssigned c2)\<rparr>) of
                            Inl e \<Rightarrow> Inl e
                          | Inr (mse', c3) \<Rightarrow>
                              (case ComputeMse2D E g (c3\<lparr>fMse := mse'\<rparr>) of
                                 Inl e \<Rightarrow> Inl e
                               | Inr mse2D \<Rightarrow> Inr (False, c3\<lparr>fMse := mse', fMse2D := mse2D\<rparr>))))
                else Inr (False, c1)))"

subsection \<open>The opening angle: \<^verbatim>\<open>MaxAngle\<close>\<close>

text \<open>The unit vector from node \<open>second\<close> to node \<open>second + 1\<close> of an assigned track.\<close>

definition segment_dir :: "'g externals \<Rightarrow> 'g \<Rightarrow> TrkCandidate \<times> nat \<Rightarrow> error + TVector3" where
  "segment_dir E g t =
     (case vector_at (Nodes E g (Track (fst t))) (snd t) of
        Inl e \<Rightarrow> Inl e
      | Inr vtx0 \<Rightarrow>
     (case vector_at (Nodes E g (Track (fst t))) (snd t + 1) of
        Inl e \<Rightarrow> Inl e
      | Inr vtx1 \<Rightarrow>
          let dir = vsub (Point3D E g vtx1) (Point3D E g vtx0)
          in Inr (vscale dir (Fin 1 / Mag dir))))"

definition MaxAngle_longest ::
  "'g externals \<Rightarrow> 'g \<Rightarrow> VtxCandidate \<Rightarrow> nat \<Rightarrow> nat \<times> double \<times> TVector3
    \<Rightarrow> error + (nat \<times> double \<times> TVector3)" where
  "MaxAngle_longest E g c i s =
     (case s of (max_l_idx, max_l, dir_i) \<Rightarrow>
      (case vector_at (fAssigned c) i of
         Inl e \<Rightarrow> Inl e
       | Inr t \<Rightarrow>
           let l = Length E g (Track (fst t))
           in if max_l < l then
                (case segment_dir E g t of
                   Inl e \<Rightarrow> Inl e
                 | Inr dir \<Rightarrow> Inr (i, l, dir))
              else Inr s))"

definition MaxAngle_min ::
  "'g externals \<Rightarrow> 'g \<Rightarrow> VtxCandidate \<Rightarrow> double \<Rightarrow> nat \<Rightarrow> TVector3 \<Rightarrow> nat \<Rightarrow> double \<Rightarrow> error + double" where
  "MaxAngle_min E g c minLength max_l_idx dir_i j mn =
     (case vector_at (fAssigned c) j of
        Inl e \<Rightarrow> Inl e
      | Inr t \<Rightarrow>
          if j \<noteq> max_l_idx \<and> minLength < Length E g (Track (fst t)) then
            (case segment_dir E g t of
               Inl e \<Rightarrow> Inl e
             | Inr dir_j \<Rightarrow>
                 let a = fabs (Dot dir_i dir_j)
                 in if a < mn then Inr a else Inr mn)
          else Inr mn)"

definition MaxAngle_reference :: "'g externals \<Rightarrow> 'g \<Rightarrow> VtxCandidate \<Rightarrow> error + (nat \<times> double \<times> TVector3)" where
  "MaxAngle_reference E g c =
     for_loop 0 (size_minus_1 (fAssigned c)) (MaxAngle_longest E g c) (0, Fin 0, origin)"

definition MaxAngle :: "'g externals \<Rightarrow> 'g \<Rightarrow> VtxCandidate \<Rightarrow> double \<Rightarrow> error + double" where
  "MaxAngle E g c minLength =
     (case MaxAngle_reference E g c of
        Inl e \<Rightarrow> Inl e
      | Inr (max_l_idx, max_l, dir_i) \<Rightarrow>
     (case for_loop 0 (length (fAssigned c)) (MaxAngle_min E g c minLength max_l_idx dir_i) (Fin 1) of
        Inl e \<Rightarrow> Inl e
      | Inr mn \<Rightarrow> Inr (Fin 180 * acos mn / TMath_Pi)))"

subsection \<open>Committing a candidate to the track graph: \<^verbatim>\<open>JoinTracks\<close>\<close>

text \<open>
  What \<^verbatim>\<open>JoinTracks\<close> works on: the track graph, the candidate, the two collections
  it is given by reference, the messages sent to \<^verbatim>\<open>mf::LogError\<close> and the tracks it
  has passed to \<^verbatim>\<open>delete\<close>. (Messages of lower severity are not modelled.)
\<close>

record 'g world =
  graph :: 'g
  cand :: VtxCandidate
  tracks :: "TrkCandidate list"
  src :: "TrkCandidate list"
  errors :: "string list"
  deleted :: "Track3D list"

text \<open>The first entry of \<open>src\<close> that holds the track, and \<open>src\<close> without it.\<close>

primrec take_track :: "Track3D \<Rightarrow> TrkCandidate list \<Rightarrow> (TrkCandidate \<times> TrkCandidate list) option" where
  "take_track trk [] = None"
| "take_track trk (s # ss) =
     (if trk = Track s then Some (s, ss)
      else (case take_track trk ss of None \<Rightarrow> None | Some (x, r) \<Rightarrow> Some (x, s # r)))"

primrec JoinTracks_move ::
  "(TrkCandidate \<times> nat) list \<Rightarrow> TrkCandidate list \<Rightarrow> TrkCandidate list
    \<Rightarrow> TrkCandidate list \<times> TrkCandidate list" where
  "JoinTracks_move [] trks srcs = (trks, srcs)"
| "JoinTracks_move (c # cs) trks srcs =
     (case take_track (Track (fst c)) srcs of
        None \<Rightarrow> JoinTracks_move cs trks srcs
      | Some (x, srcs') \<Rightarrow> JoinTracks_move cs (trks @ [x]) srcs')"

text \<open>
  The state of the loop over the assigned pairs: the graph, \<open>tracks\<close>,
  \<^verbatim>\<open>vtxCenter\<close>, \<^verbatim>\<open>hasInnerCenter\<close> and \<^verbatim>\<open>nOK\<close>.
\<close>

type_synonym 'g join_state = "'g \<times> TrkCandidate list \<times> Node3D option \<times> bool \<times> nat"

text \<open>
  Where the centre goes on the segment \<open>idx\<close> of the track (the source has this block
  twice, in the same words): a new node inside the segment, the end of the segment, or
  its start. It returns the index of the node of the centre.
\<close>

definition place_center ::
  "'g externals \<Rightarrow> TVector3 \<Rightarrow> Track3D \<Rightarrow> nat \<Rightarrow> double \<Rightarrow> double \<Rightarrow> double \<Rightarrow> double
    \<Rightarrow> int \<times> int \<Rightarrow> int \<times> int \<Rightarrow> 'g \<Rightarrow> nat \<times> 'g" where
  "place_center E center trk idx f ds d0 d1 tc0 tc1 g =
     (if Fin 0 \<le> f \<and> f \<le> Fin 1 \<and> kMinDistToNode < f * ds \<and> kMinDistToNode < (Fin 1 - f) * ds
      then
        (let (tpc, cryo) = (if f < Fin 0.5 then tc0 else tc1)
         in (idx + 1, InsertNode E trk center (idx + 1) tpc cryo g))
      else if d1 < d0 then (idx + 1, g)
      else (idx, g))"

definition JoinTracks_split ::
  "'g externals \<Rightarrow> TVector3 \<Rightarrow> nat \<Rightarrow> Track3D \<Rightarrow> int \<Rightarrow> nat \<Rightarrow> double \<Rightarrow> double \<Rightarrow> double \<Rightarrow> double
    \<Rightarrow> int \<times> int \<Rightarrow> int \<times> int \<Rightarrow> 'g join_state \<Rightarrow> error + 'g join_state" where
  "JoinTracks_split E center i trk key idx f ds d0 d1 tc0 tc1 s =
     (case s of (g, trks, vtxCenter, hasInnerCenter, nOK) \<Rightarrow>
      (let (idx', g1) = place_center E center trk idx f ds d0 d1 tc0 tc1 g;
           (t0, g2) = Split E trk idx' g1
       in case t0 of
            None \<Rightarrow> Inr (g2, trks, vtxCenter, hasInnerCenter, nOK)
          | Some t \<Rightarrow>
              (let g3 = MakeProjection E t (MakeProjection E trk g2);
                   trks' = trks @ [\<lparr>Track = t, Key = key\<rparr>]
               in if i = 0 then
                    (case vector_front (Nodes E g3 trk) of
                       Inl e \<Rightarrow> Inl e
                     | Inr v \<Rightarrow> Inr (g3, trks', Some v, hasInnerCenter, nOK + 2))
                  else
                    (let (ok, g4) = AttachTo E trk vtxCenter False g3
                     in Inr (g4, trks', vtxCenter, hasInnerCenter, if ok then nOK + 2 else nOK)))))"

definition JoinTracks_inner ::
  "'g externals \<Rightarrow> TVector3 \<Rightarrow> nat \<Rightarrow> Track3D \<Rightarrow> nat \<Rightarrow> double \<Rightarrow> double \<Rightarrow> double \<Rightarrow> double
    \<Rightarrow> int \<times> int \<Rightarrow> int \<times> int \<Rightarrow> 'g join_state \<Rightarrow> error + 'g join_state" where
  "JoinTracks_inner E center i trk idx f ds d0 d1 tc0 tc1 s =
     (case s of (g, trks, vtxCenter, hasInnerCenter, nOK) \<Rightarrow>
      (let (idx', g1) = place_center E center trk idx f ds d0 d1 tc0 tc1 g
       in case vector_at (Nodes E g1 trk) idx' of
            Inl e \<Rightarrow> Inl e
          | Inr innerCenter \<Rightarrow>
              if 0 < i then
                (case vtxCenter of
                   None \<Rightarrow> Inl NullPointer
                 | Some v \<Rightarrow>
                     (let g2 = (case Node_Prev E g1 v of
                                  None \<Rightarrow> g1
                                | Some seg \<Rightarrow> Flip E (Seg_Parent E g1 seg) g1);
                          branches = Node_GetBranches E g2 v;
                          g3 = fold (\<lambda>b g'. snd (AttachTo E b (Some innerCenter) True g')) branches g2
                      in Inr (g3, trks, Some innerCenter, True, nOK + 1)))
              else Inr (g1, trks, Some innerCenter, True, nOK + 1)))"

definition canFlipPrev :: "'g externals \<Rightarrow> 'g \<Rightarrow> Node3D option \<Rightarrow> bool" where
  "canFlipPrev E g vtxCenter =
     (case vtxCenter of
        None \<Rightarrow> True
      | Some v \<Rightarrow>
          (case Node_Prev E g v of
             None \<Rightarrow> True
           | Some seg \<Rightarrow>
               (case NextSegment E g (Seg_Parent E g seg) v of
                  Some _ \<Rightarrow> False
                | None \<Rightarrow> CanFlip E g (Seg_Parent E g seg))))"

text \<open>The centre at the first node of the track.\<close>

definition JoinTracks_front ::
  "'g externals \<Rightarrow> TVector3 \<Rightarrow> nat \<Rightarrow> Track3D \<Rightarrow> 'g join_state \<Rightarrow> error + 'g join_state" where
  "JoinTracks_front E center i trk s =
     (case s of (g, trks, vtxCenter, hasInnerCenter, nOK) \<Rightarrow>
      if i = 0 then
        (case vector_front (Nodes E g trk) of
           Inl e \<Rightarrow> Inl e
         | Inr v \<Rightarrow> Inr (SetPoint3D E v center g, trks, Some v, hasInnerCenter, nOK + 1))
      else
        (let (ok, g1) = AttachTo E trk vtxCenter False g
         in Inr (g1, trks, vtxCenter, hasInnerCenter, if ok then nOK + 1 else nOK)))"

text \<open>The centre at the last node of the track.\<close>

definition JoinTracks_back ::
  "'g externals \<Rightarrow> TVector3 \<Rightarrow> nat \<Rightarrow> Track3D \<Rightarrow> 'g join_state \<Rightarrow> error + 'g join_state" where
  "JoinTracks_back E center i trk s =
     (case s of (g, trks, vtxCenter, hasInnerCenter, nOK) \<Rightarrow>
      if i = 0 then
        (if CanFlip E g trk then
           (let g1 = Flip E trk g
            in case vector_front (Nodes E g1 trk) of
                 Inl e \<Rightarrow> Inl e
               | Inr v \<Rightarrow> Inr (SetPoint3D E v center g1, trks, Some v, hasInnerCenter, nOK + 1))
         else
           (case vector_back (Nodes E g trk) of
              Inl e \<Rightarrow> Inl e
            | Inr v \<Rightarrow> Inr (SetPoint3D E v center g, trks, Some v, hasInnerCenter, nOK + 1)))
      else
        (case vtxCenter of
           None \<Rightarrow> Inl NullPointer
         | Some v \<Rightarrow>
             if Node_Prev E g v \<noteq> None \<and> CanFlip E g trk then
               (let (ok, g1) = AttachTo E trk vtxCenter False (Flip E trk g)
                in Inr (g1, trks, vtxCenter, hasInnerCenter, if ok then nOK + 1 else nOK))
             else
               (let (ok, g1) = AttachBackTo E trk vtxCenter g
                in Inr (g1, trks, vtxCenter, hasInnerCenter, if ok then nOK + 1 else nOK))))"

text \<open>One round of the loop over the assigned pairs.\<close>

definition JoinTracks_attach ::
  "'g externals \<Rightarrow> VtxCandidate \<Rightarrow> nat \<Rightarrow> 'g join_state \<Rightarrow> error + 'g join_state" where
  "JoinTracks_attach E c i s =
     (case s of (g, trks, vtxCenter, hasInnerCenter, nOK) \<Rightarrow>
      (case vector_at (fAssigned c) i of
         Inl e \<Rightarrow> Inl e
       | Inr a \<Rightarrow>
           let trk = Track (fst a); key = Key (fst a); idx = snd a
           in (case vector_at (Nodes E g trk) idx of
                 Inl e \<Rightarrow> Inl e
               | Inr n0 \<Rightarrow>
              (case vector_at (Nodes E g trk) (idx + 1) of
                 Inl e \<Rightarrow> Inl e
               | Inr n1 \<Rightarrow>
                   let p0 = Point3D E g n0; p1 = Point3D E g n1;
                       tc0 = (TPC E g n0, Cryo E g n0); tc1 = (TPC E g n1, Cryo E g n1);
                       d0 = sqrt_double (Dist2 E p0 (fCenter c));
                       d1 = sqrt_double (Dist2 E p1 (fCenter c));
                       ds = sqrt_double (Dist2 E p0 p1);
                       f = GetSegmentProjVector E (fCenter c) p0 p1
                   in if idx = 0 \<and> f * ds \<le> kMinDistToNode
                      then JoinTracks_front E (fCenter c) i trk s
                      else if idx + 2 = length (Nodes E g trk) \<and> (Fin 1 - f) * ds \<le> kMinDistToNode
                      then JoinTracks_back E (fCenter c) i trk s
                      else if hasInnerCenter \<or> \<not> canFlipPrev E g vtxCenter
                      then JoinTracks_split E (fCenter c) i trk key idx f ds d0 d1 tc0 tc1 s
                      else JoinTracks_inner E (fCenter c) i trk idx f ds d0 d1 tc0 tc1 s))))"

text \<open>
  The loop that removes the branches: for each branch, the first entry of \<open>tracks\<close>
  that holds it is erased and the branch deleted.
\<close>

primrec erase_track :: "Track3D \<Rightarrow> TrkCandidate list \<Rightarrow> TrkCandidate list option" where
  "erase_track b [] = None"
| "erase_track b (t # ts) =
     (if Track t = b then Some ts
      else (case erase_track b ts of None \<Rightarrow> None | Some r \<Rightarrow> Some (t # r)))"

primrec remove_branches ::
  "'g externals \<Rightarrow> Track3D list \<Rightarrow> 'g \<times> TrkCandidate list \<times> Track3D list
    \<Rightarrow> 'g \<times> TrkCandidate list \<times> Track3D list" where
  "remove_branches E [] s = s"
| "remove_branches E (b # bs) s =
     (case s of (g, trks, dels) \<Rightarrow>
      (case erase_track b trks of
         None \<Rightarrow> remove_branches E bs s
       | Some trks' \<Rightarrow> remove_branches E bs (delete_Track E b g, trks', dels @ [b])))"

text \<open>The end of \<^verbatim>\<open>JoinTracks\<close>, from \<^verbatim>\<open>bool result = false\<close> on.\<close>

definition JoinTracks_root :: "'g externals \<Rightarrow> 'g \<Rightarrow> Node3D \<Rightarrow> error + Track3D" where
  "JoinTracks_root E g v =
     (case (if Node_NextCount E g v \<noteq> 0 then deref (Node_Next E g v 0)
            else if Node_Prev E g v \<noteq> None then deref (Node_Prev E g v)
            else Inl VertexWithNoSegments) of
        Inl e \<Rightarrow> Inl e
      | Inr rootSeg \<Rightarrow>
          Inr (case GetRoot E g (Seg_Parent E g rootSeg) of
                 None \<Rightarrow> Seg_Parent E g rootSeg
               | Some r \<Rightarrow> r))"

definition JoinTracks_finish ::
  "'g externals \<Rightarrow> Node3D option \<Rightarrow> nat \<Rightarrow> 'g world \<Rightarrow> error + (bool \<times> 'g world)" where
  "JoinTracks_finish E vtxCenter nOK w =
     (case vtxCenter of
        None \<Rightarrow> Inr (False, w\<lparr>errors := errors w @ [''Cannot create common vertex'']\<rparr>)
      | Some v \<Rightarrow>
          (case JoinTracks_root E (graph w) v of
             Inl e \<Rightarrow> Inl e
           | Inr rootTrk \<Rightarrow>
               let (noLoops, branchesToRemove) = GetBranches E (graph w) rootTrk;
                   (result, tuneOK, w1) =
                     (if noLoops \<and> 1 < nOK then
                        (let (tune, g1) = TuneFullTree E rootTrk (graph w);
                             w' = w\<lparr>graph := g1,
                                    cand := (cand w)\<lparr>fAssigned := [],
                                                      fCenter := Point3D E (graph w) v,
                                                      fMse := Fin 0, fMse2D := Fin 0\<rparr>\<rparr>
                         in if Fin (- 2) < tune then (True, True, w') else (False, False, w'))
                      else (False, True, w))
               in if \<not> (noLoops \<and> tuneOK) then
                    (case remove_branches E branchesToRemove (graph w1, tracks w1, deleted w1) of
                       (g2, trks, dels) \<Rightarrow>
                         Inr (result, w1\<lparr>graph := g2, tracks := trks, deleted := dels\<rparr>))
                  else Inr (result, w1)))"

definition JoinTracks :: "'g externals \<Rightarrow> 'g world \<Rightarrow> error + (bool \<times> 'g world)" where
  "JoinTracks E w =
     (if tracksJoined (cand w)
      then Inr (False, w\<lparr>errors := errors w @ [''Tracks already attached to the vertex.'']\<rparr>)
      else
        (let c = (cand w)\<lparr>tracksJoined := True\<rparr>;
             (trks, srcs) = JoinTracks_move (fAssigned c) (tracks w) (src w)
         in case for_loop 0 (length (fAssigned c)) (JoinTracks_attach E c)
                   (graph w, trks, None, False, 0) of
              Inl e \<Rightarrow> Inl e
            | Inr (g, trks', vtxCenter, hasInnerCenter, nOK) \<Rightarrow>
                JoinTracks_finish E vtxCenter nOK
                  (w\<lparr>graph := g, cand := c, tracks := trks', src := srcs\<rparr>)))"



section \<open>What the specification calls derived state\<close>

text \<open>
  The specification's words: centre, error, \<open>mse\<close> and \<open>mse2D\<close> are derived state,
  recomputed from the assigned set. A candidate is in that state when \<^verbatim>\<open>Compute\<close> on it
  returns its \<open>mse\<close> and leaves its centre and error, and \<^verbatim>\<open>ComputeMse2D\<close> returns its
  \<open>mse2D\<close>.
\<close>

definition derived_from_assigned :: "'g externals \<Rightarrow> 'g \<Rightarrow> VtxCandidate \<Rightarrow> bool" where
  "derived_from_assigned E g c =
     (case Compute E g c of
        Inl e \<Rightarrow> False
      | Inr (mse, c') \<Rightarrow>
          fCenter c = fCenter c' \<and> fErr c = fErr c' \<and> fMse c = mse \<and>
          ComputeMse2D E g c = Inr (fMse2D c))"

section \<open>The search of \<^verbatim>\<open>Add\<close> in the specification's terms\<close>

text \<open>
  The specification's words: for a segment \<open>n\<close> of the new track, the fit residual
  and the distance of the fitted point to the segment. The fit is the one of the
  assigned pairs of the candidate with the new track at segment \<open>n\<close> appended; a
  segment shorter than the minimum is not tried (\<open>None\<close>).
\<close>

definition Add_trial ::
  "'g externals \<Rightarrow> 'g \<Rightarrow> TrkCandidate \<Rightarrow> VtxCandidate \<Rightarrow> nat \<Rightarrow> error + (double \<times> double) option" where
  "Add_trial E g trk c n =
     (case vector_at (Nodes E g (Track trk)) n of
        Inl e \<Rightarrow> Inl e
      | Inr node \<Rightarrow>
     (case NextSegment E g (Track trk) node of
        None \<Rightarrow> Inl NullPointer
      | Some seg \<Rightarrow>
          if Seg_Length E g seg < fSegMinLength c then Inr None
          else
            (case Compute E g (c\<lparr>fAssigned := fAssigned c @ [(trk, n)]\<rparr>) of
               Inl e \<Rightarrow> Inl e
             | Inr (mse, c') \<Rightarrow>
                 Inr (Some (mse, sqrt_double (GetDistance2To E g seg (fCenter c')))))))"

text \<open>
  The specification's words for the search: the segments are tried in increasing
  \<open>n\<close>, and a segment is taken when its residual is below the least residual taken so
  far and its distance below the least distance taken so far. After the segments
  below \<open>n\<close>: the residual, the index and the distance of the segment taken last (at
  first \<^verbatim>\<open>kMaxDistToTrack\<close> squared, 0 and \<^verbatim>\<open>kMaxDistToTrack\<close>).
\<close>

primrec Add_greedy ::
  "'g externals \<Rightarrow> 'g \<Rightarrow> TrkCandidate \<Rightarrow> VtxCandidate \<Rightarrow> nat \<Rightarrow> double \<times> nat \<times> double" where
  "Add_greedy E g trk c 0 = (kMaxDistToTrack * kMaxDistToTrack, 0, kMaxDistToTrack)"
| "Add_greedy E g trk c (Suc n) =
     (case Add_greedy E g trk c n of
        (min_mse, n_best, d_best) \<Rightarrow>
          (case Add_trial E g trk c n of
             Inl e \<Rightarrow> (min_mse, n_best, d_best)
           | Inr None \<Rightarrow> (min_mse, n_best, d_best)
           | Inr (Some (mse, d)) \<Rightarrow>
               if mse < min_mse \<and> d < d_best then (mse, n, d)
               else (min_mse, n_best, d_best)))"

section \<open>Invariants of the loops\<close>

text \<open>The state of the loop after the segments below \<open>n\<close> have been tried.\<close>

definition Add_many_inv ::
  "'g externals \<Rightarrow> 'g \<Rightarrow> TrkCandidate \<Rightarrow> VtxCandidate \<Rightarrow> nat
    \<Rightarrow> VtxCandidate \<times> double \<times> nat \<times> double \<Rightarrow> bool" where
  "Add_many_inv E g trk c n s =
     (case s of (ck, min_mse, n_best, d_best) \<Rightarrow>
        (\<exists>k cen err. ck = c\<lparr>fAssigned := fAssigned c @ [(trk, k)], fCenter := cen, fErr := err\<rparr>) \<and>
        ((min_mse = Fin 16 \<and> d_best = Fin 4 \<and>
          (\<forall>j<n. \<forall>m d. Add_trial E g trk c j = Inr (Some (m, d)) \<longrightarrow> \<not> (m < Fin 16 \<and> d < Fin 4)))
         \<or>
         (n_best < n \<and> Add_trial E g trk c n_best = Inr (Some (min_mse, d_best)) \<and>
          min_mse < Fin 16 \<and> d_best < Fin 4 \<and>
          (\<forall>j. n_best < j \<and> j < n \<longrightarrow>
             (\<forall>m d. Add_trial E g trk c j = Inr (Some (m, d)) \<longrightarrow> \<not> (m < min_mse \<and> d < d_best))))))"

text \<open>
  The same loop against the search in the specification's terms: the candidate
  differs from the one of the call in the last index, the centre and the error only,
  the rest of the state is what the search has found, and every fit so far returned.
\<close>

definition Add_greedy_inv ::
  "'g externals \<Rightarrow> 'g \<Rightarrow> TrkCandidate \<Rightarrow> VtxCandidate \<Rightarrow> nat
    \<Rightarrow> VtxCandidate \<times> double \<times> nat \<times> double \<Rightarrow> bool" where
  "Add_greedy_inv E g trk c n s =
     ((\<exists>k cen err. fst s = c\<lparr>fAssigned := fAssigned c @ [(trk, k)], fCenter := cen, fErr := err\<rparr>) \<and>
      snd s = Add_greedy E g trk c n \<and>
      (\<forall>j<n. \<exists>r. Add_trial E g trk c j = Inr r))"

text \<open>
  The second loop of \<^verbatim>\<open>MaxAngle\<close> after the tracks below \<open>n\<close>: \<^verbatim>\<open>min\<close> is between 0
  and 1, no track looked at has a smaller \<open>|cos|\<close>, and \<^verbatim>\<open>min\<close> is 1 or the \<open>|cos|\<close>
  of one of them.
\<close>

definition MaxAngle_inv ::
  "'g externals \<Rightarrow> 'g \<Rightarrow> VtxCandidate \<Rightarrow> double \<Rightarrow> nat \<Rightarrow> TVector3 \<Rightarrow> nat \<Rightarrow> double \<Rightarrow> bool" where
  "MaxAngle_inv E g c minLength idx dir_i n mn =
     ((\<exists>x. mn = Fin x \<and> 0 \<le> x \<and> x \<le> 1) \<and>
      (\<forall>j<n. j \<noteq> idx \<and> minLength < Length E g (Track (fst (fAssigned c ! j))) \<longrightarrow>
         (\<forall>dj. segment_dir E g (fAssigned c ! j) = Inr dj \<longrightarrow> \<not> fabs (Dot dir_i dj) < mn)) \<and>
      (mn = Fin 1 \<or>
       (\<exists>j<n. j \<noteq> idx \<and> minLength < Length E g (Track (fst (fAssigned c ! j))) \<and>
          (\<exists>dj. segment_dir E g (fAssigned c ! j) = Inr dj \<and> mn = fabs (Dot dir_i dj)))))"

text \<open>The first loop of \<^verbatim>\<open>MaxAngle\<close> after the tracks below \<open>n\<close>.\<close>

definition MaxAngle_ref_inv ::
  "'g externals \<Rightarrow> 'g \<Rightarrow> VtxCandidate \<Rightarrow> nat \<Rightarrow> nat \<times> double \<times> TVector3 \<Rightarrow> bool" where
  "MaxAngle_ref_inv E g c n s =
     (case s of (idx, l, dir) \<Rightarrow>
        (\<forall>i<n. \<not> l < Length E g (Track (fst (fAssigned c ! i)))) \<and>
        ((idx = 0 \<and> l = Fin 0 \<and> dir = origin) \<or>
         (idx < n \<and> l = Length E g (Track (fst (fAssigned c ! idx))) \<and>
          segment_dir E g (fAssigned c ! idx) = Inr dir)))"

section \<open>A small detector to run the candidate on\<close>

text \<open>
  Tracks 1 to 5 have the two nodes \<open>10 t\<close> and \<open>10 t + 1\<close> and one segment; track 6
  has three nodes and two segments. A segment is named after its first node. Tracks 1
  to 4 start at the origin: 1, 2 and 3 run along the axes, 4 runs against track 1.
  Track 5 is far from the origin. Track 6 comes in along the first axis and stops
  short of the origin, then turns away; it is the longest track.

  The least-squares solver of this detector proposes the origin and reports the mean
  squared distance of the lines from it, which is the least-squares answer for lines
  that cross there; given fewer than two lines it reports failure, with a negative
  residual. The graph has no state of its own (\<open>unit\<close>): attaching succeeds, nothing
  can be split off, tuning converges, every track is its own root. All 2D distances
  are 0.
\<close>

definition demo_nodes :: "Track3D \<Rightarrow> Node3D list" where
  "demo_nodes t = (if t = 6 then [60, 61, 62] else [10 * t, 10 * t + 1])"

definition demo_point :: "Node3D \<Rightarrow> TVector3" where
  "demo_point n =
     (if n = 11 then TVector3 (Fin 1) (Fin 0) (Fin 0)
      else if n = 21 then TVector3 (Fin 0) (Fin 1) (Fin 0)
      else if n = 31 then TVector3 (Fin 0) (Fin 0) (Fin 1)
      else if n = 41 then TVector3 (Fin (- 1)) (Fin 0) (Fin 0)
      else if n = 50 then TVector3 (Fin 10) (Fin 10) (Fin 10)
      else if n = 51 then TVector3 (Fin 10) (Fin 10) (Fin 11)
      else if n = 60 then TVector3 (Fin 5) (Fin 0) (Fin 0)
      else if n = 61 then TVector3 (Fin (5 / 2)) (Fin 0) (Fin 0)
      else if n = 62 then TVector3 (Fin (- 1 / 2)) (Fin 0) (Fin 4)
      else origin)"

definition demo_length :: "Segment3D \<Rightarrow> double" where
  "demo_length s = (if s = 60 then Fin (5 / 2) else if s = 61 then Fin 5 else Fin 1)"

definition demo_Dist2 :: "TVector3 \<Rightarrow> TVector3 \<Rightarrow> double" where
  "demo_Dist2 a b = Dot (vsub a b) (vsub a b)"

definition demo_fraction :: "TVector3 \<Rightarrow> TVector3 \<Rightarrow> TVector3 \<Rightarrow> double" where
  "demo_fraction p p0 p1 = Dot (vsub p p0) (vsub p1 p0) / Dot (vsub p1 p0) (vsub p1 p0)"

definition demo_projection :: "TVector3 \<Rightarrow> TVector3 \<Rightarrow> TVector3 \<Rightarrow> TVector3" where
  "demo_projection p p0 p1 =
     (let v = vscale (vsub p1 p0) (demo_fraction p p0 p1)
      in TVector3 (X p0 + X v) (Y p0 + Y v) (Z p0 + Z v))"

text \<open>The point of the segment from \<open>p0\<close> to \<open>p1\<close> that is closest to \<open>p\<close>.\<close>

definition demo_closest :: "TVector3 \<Rightarrow> TVector3 \<Rightarrow> TVector3 \<Rightarrow> TVector3" where
  "demo_closest p p0 p1 =
     (if demo_fraction p p0 p1 < Fin 0 then p0
      else if Fin 1 < demo_fraction p p0 p1 then p1
      else demo_projection p p0 p1)"

primrec demo_sum :: "(TVector3 \<times> TVector3) list \<Rightarrow> double" where
  "demo_sum [] = Fin 0"
| "demo_sum (l # ls) = demo_Dist2 origin (demo_projection origin (fst l) (snd l)) + demo_sum ls"

definition demo_solver :: "(TVector3 \<times> TVector3) list \<Rightarrow> double \<times> TVector3" where
  "demo_solver lines =
     (if length lines < 2 then (Fin (- 1), origin)
      else (demo_sum lines / of_size_t (length lines), origin))"

definition demo :: "unit externals" where
  "demo =
     \<lparr>GetRoot = (\<lambda>g t. Some t),
      IsAttachedTo = (\<lambda>g a b. a = b),
      Length = (\<lambda>g t. if t = 6 then Fin (15 / 2) else Fin 1),
      Nodes = (\<lambda>g t. demo_nodes t),
      NextSegment = (\<lambda>g t n. if n \<in> set (butlast (demo_nodes t)) then Some n else None),
      CanFlip = (\<lambda>g t. True),
      GetBranches = (\<lambda>g t. (True, [t])),
      Seg_Length = (\<lambda>g s. demo_length s),
      Seg_Prev = (\<lambda>g s. Some s),
      Seg_Next = (\<lambda>g s k. if k = 0 then Some (s + 1) else None),
      Seg_Parent = (\<lambda>g s. s div 10),
      GetDistance2To = (\<lambda>g s p. demo_Dist2 p (demo_closest p (demo_point s) (demo_point (s + 1)))),
      GetDistance2To_2D = (\<lambda>g s p view. Fin 0),
      Point3D = (\<lambda>g n. demo_point n),
      TPC = (\<lambda>g n. 0),
      Cryo = (\<lambda>g n. 0),
      Node_Prev = (\<lambda>g n. if n mod 10 = 0 then None else Some (n - 1)),
      Node_Next = (\<lambda>g n k. if (n mod 10 = 0 \<or> n = 61) \<and> k = 0 then Some n else None),
      Node_NextCount = (\<lambda>g n. if n mod 10 = 0 \<or> n = 61 then 1 else 0),
      Node_GetBranches = (\<lambda>g n. []),
      SetPoint3D = (\<lambda>n p g. g),
      AttachTo = (\<lambda>t v noFlip g. (True, g)),
      AttachBackTo = (\<lambda>t v g. (True, g)),
      Flip = (\<lambda>t g. g),
      InsertNode = (\<lambda>t p i tpc cryo g. g),
      Split = (\<lambda>t i g. (None, g)),
      MakeProjection = (\<lambda>t g. g),
      TuneFullTree = (\<lambda>t g. (Fin 0, g)),
      delete_Track = (\<lambda>t g. g),
      SolveLeastSquares3D = demo_solver,
      Dist2 = demo_Dist2,
      GetProjectionToSegment = demo_projection,
      GetSegmentProjVector = demo_fraction,
      GetProjectionToPlane = (\<lambda>p view tpc cryo. TVector2 (Fin 0) (Fin 0)),
      HasPlane = (\<lambda>tpc cryo view. True)\<rparr>"

text \<open>
  The detector once track 3 has been attached to track 1 at a vertex: track 1 is the
  root of both.
\<close>

definition demo_joined_1_3 :: "unit externals" where
  "demo_joined_1_3 = demo\<lparr>GetRoot := (\<lambda>g t. if t = 3 then Some 1 else Some t)\<rparr>"

text \<open>The detector with tracks that refuse to be attached to a node.\<close>

definition demo_refusing :: "unit externals" where
  "demo_refusing = demo\<lparr>AttachTo := (\<lambda>t v noFlip g. (False, g))\<rparr>"

text \<open>The detector with a tuning that diverges.\<close>

definition demo_diverging :: "unit externals" where
  "demo_diverging = demo\<lparr>TuneFullTree := (\<lambda>t g. (Fin (- 2), g))\<rparr>"

text \<open>The detector with a solver that answers an empty set of lines with residual 0.\<close>

definition demo_lenient :: "unit externals" where
  "demo_lenient = demo\<lparr>SolveLeastSquares3D := (\<lambda>lines. (Fin 0, origin))\<rparr>"

definition demo_trk :: "nat \<Rightarrow> TrkCandidate" where
  "demo_trk t = \<lparr>Track = t, Key = int t\<rparr>"

text \<open>A candidate with centre, error and residuals at zero.\<close>

definition demo_cand :: "(TrkCandidate \<times> nat) list \<Rightarrow> VtxCandidate" where
  "demo_cand xs =
     \<lparr>fAssigned = xs, fCenter = origin, fErr = origin, fMse = Fin 0, fMse2D = Fin 0,
      fSegMinLength = Fin 0.5, tracksJoined = False\<rparr>"

definition demo_world :: "VtxCandidate \<Rightarrow> TrkCandidate list \<Rightarrow> TrkCandidate list \<Rightarrow> unit world" where
  "demo_world c trks srcs =
     \<lparr>graph = (), cand = c, tracks = trks, src = srcs, errors = [], deleted = []\<rparr>"

section \<open>Properties\<close>

subsection \<open>Evaluation on the small detector\<close>

lemma demo_simps:
  "GetRoot demo g t = Some t"
  "IsAttachedTo demo g a b = (a = b)"
  "Length demo g t = (if t = 6 then Fin (15 / 2) else Fin 1)"
  "Nodes demo g t = demo_nodes t"
  "NextSegment demo g t n = (if n \<in> set (butlast (demo_nodes t)) then Some n else None)"
  "CanFlip demo g t = True"
  "GetBranches demo g t = (True, [t])"
  "Seg_Length demo g s = demo_length s"
  "Seg_Prev demo g s = Some s"
  "Seg_Next demo g s k = (if k = 0 then Some (s + 1) else None)"
  "Seg_Parent demo g s = s div 10"
  "GetDistance2To demo g s p = demo_Dist2 p (demo_closest p (demo_point s) (demo_point (s + 1)))"
  "GetDistance2To_2D demo g s q view = Fin 0"
  "Point3D demo g n = demo_point n"
  "TPC demo g n = 0"
  "Cryo demo g n = 0"
  "Node_Prev demo g n = (if n mod 10 = 0 then None else Some (n - 1))"
  "Node_Next demo g n k = (if (n mod 10 = 0 \<or> n = 61) \<and> k = 0 then Some n else None)"
  "Node_NextCount demo g n = (if n mod 10 = 0 \<or> n = 61 then 1 else 0)"
  "Node_GetBranches demo g n = []"
  "SetPoint3D demo n p g = g"
  "AttachTo demo t v noFlip g = (True, g)"
  "AttachBackTo demo t v g = (True, g)"
  "Flip demo t g = g"
  "InsertNode demo t p i tpc cryo g = g"
  "Split demo t i g = (None, g)"
  "MakeProjection demo t g = g"
  "TuneFullTree demo t g = (Fin 0, g)"
  "delete_Track demo t g = g"
  "SolveLeastSquares3D demo = demo_solver"
  "Dist2 demo = demo_Dist2"
  "GetProjectionToSegment demo = demo_projection"
  "GetSegmentProjVector demo = demo_fraction"
  "GetProjectionToPlane demo p view tpc cryo = TVector2 (Fin 0) (Fin 0)"
  "HasPlane demo tpc cryo view = True"
  by (simp_all add: demo_def)

lemmas demo_defs = demo_simps demo_trk_def demo_cand_def demo_world_def demo_point_def
  demo_nodes_def demo_length_def demo_Dist2_def demo_fraction_def demo_projection_def
  demo_closest_def demo_solver_def
lemmas num_defs = origin_def vsub_def vscale_def Mag_def Dot_def of_size_t_def TMath_Pi_def fabs_def
  minus_double_def kMaxDistToTrack_def kMinDistToNode_def Let_def
lemmas aux_defs = vector_at_def vector_front_def vector_back_def deref_def size_minus_1_def
  set_back_second_def set_front_second_def

lemma demo_joined_simps:
  "GetRoot demo_joined_1_3 g t = (if t = 3 then Some 1 else Some t)"
  "IsAttachedTo demo_joined_1_3 g a b = (a = b)"
  "Dist2 demo_joined_1_3 = demo_Dist2"
  by (simp_all add: demo_joined_1_3_def demo_def)

lemma demo_refusing_simps:
  "GetRoot demo_refusing g t = Some t"
  "Nodes demo_refusing g t = demo_nodes t"
  "GetBranches demo_refusing g t = (True, [t])"
  "Seg_Parent demo_refusing g s = s div 10"
  "Point3D demo_refusing g n = demo_point n"
  "TPC demo_refusing g n = 0"
  "Cryo demo_refusing g n = 0"
  "Node_Prev demo_refusing g n = (if n mod 10 = 0 then None else Some (n - 1))"
  "Node_Next demo_refusing g n k = (if (n mod 10 = 0 \<or> n = 61) \<and> k = 0 then Some n else None)"
  "Node_NextCount demo_refusing g n = (if n mod 10 = 0 \<or> n = 61 then 1 else 0)"
  "SetPoint3D demo_refusing n p g = g"
  "AttachTo demo_refusing t v noFlip g = (False, g)"
  "Dist2 demo_refusing = demo_Dist2"
  "GetSegmentProjVector demo_refusing = demo_fraction"
  by (simp_all add: demo_refusing_def demo_def)

lemma demo_diverging_simps:
  "GetRoot demo_diverging g t = Some t"
  "GetBranches demo_diverging g t = (True, [t])"
  "Seg_Parent demo_diverging g s = s div 10"
  "Point3D demo_diverging g n = demo_point n"
  "Node_Prev demo_diverging g n = (if n mod 10 = 0 then None else Some (n - 1))"
  "Node_Next demo_diverging g n k = (if (n mod 10 = 0 \<or> n = 61) \<and> k = 0 then Some n else None)"
  "Node_NextCount demo_diverging g n = (if n mod 10 = 0 \<or> n = 61 then 1 else 0)"
  "TuneFullTree demo_diverging t g = (Fin (- 2), g)"
  "delete_Track demo_diverging t g = g"
  by (simp_all add: demo_diverging_def demo_def)

lemmas eval_defs = Add_def Add_first_def Add_second_def Add_second_outer_def Add_second_inner_def
  Add_many_def Add_many_body_def IsAttached_def Has_def for_loop.simps Add_first_scan.simps
  Compute_def Compute_weight_def ComputeMse2D_def plane_term_def MergeWith_def
  demo_defs num_defs aux_defs

lemma demo_Add_first:
  "Add demo () (demo_trk 1) (demo_cand []) = Inr (True, demo_cand [(demo_trk 1, 0)])"
  by (simp add: eval_defs)

lemma demo_Compute_one:
  "Compute demo () (demo_cand [(demo_trk 1, 0)]) = Inr (Fin 1000000, demo_cand [(demo_trk 1, 0)])"
  by (simp add: eval_defs)

lemma demo_Compute_two:
  "Compute demo () (demo_cand [(demo_trk 1, 0), (demo_trk 2, 0)])
   = Inr (Fin 0, (demo_cand [(demo_trk 1, 0), (demo_trk 2, 0)])
                   \<lparr>fErr := TVector3 (Fin (sqrt (109 / 200))) (Fin 1) (Fin 1)\<rparr>)"
  by (simp add: eval_defs)

lemma demo_Add_second:
  "Add demo () (demo_trk 2) (demo_cand [(demo_trk 1, 0)])
   = Inr (True, (demo_cand [(demo_trk 1, 0), (demo_trk 2, 0)])
                  \<lparr>fErr := TVector3 (Fin (sqrt (109 / 200))) (Fin 1) (Fin 1)\<rparr>)"
  by (simp add: eval_defs)

lemma demo_Add_far:
  "Add demo () (demo_trk 5) (demo_cand [(demo_trk 1, 0), (demo_trk 2, 0)])
   = Inr (False, (demo_cand [(demo_trk 1, 0), (demo_trk 2, 0)])
                  \<lparr>fErr := TVector3 (Fin (sqrt (109 / 200))) (Fin 1) (Fin 1)\<rparr>)"
  by (simp add: eval_defs)

lemma demo_MergeWith:
  "MergeWith demo () (demo_cand [(demo_trk 3, 0)]) (demo_cand [(demo_trk 1, 0), (demo_trk 2, 0)])
   = Inr (True, (demo_cand [(demo_trk 1, 0), (demo_trk 2, 0), (demo_trk 3, 0)])
                  \<lparr>fErr := TVector3 (Fin (sqrt (59 / 150))) (Fin 1) (Fin 1)\<rparr>)"
  by (simp add: eval_defs)

lemma demo_not_attached:
  "IsAttached demo () (demo_cand [(demo_trk 1, 0), (demo_trk 2, 0)]) (Track (demo_trk 5)) = Inr False"
  by (simp add: eval_defs)

lemma demo_JoinTracks_two:
  "JoinTracks demo (demo_world (demo_cand [(demo_trk 1, 0), (demo_trk 2, 0)]) [] [demo_trk 1, demo_trk 2])
   = Inr (True, demo_world ((demo_cand [])\<lparr>tracksJoined := True\<rparr>) [demo_trk 1, demo_trk 2] [])"
  by (simp add: JoinTracks_def JoinTracks_attach_def JoinTracks_front_def JoinTracks_back_def
      JoinTracks_split_def JoinTracks_inner_def canFlipPrev_def place_center_def
      JoinTracks_finish_def JoinTracks_root_def for_loop.simps demo_defs num_defs aux_defs)

lemmas angle_defs = MaxAngle_def MaxAngle_reference_def MaxAngle_longest_def MaxAngle_min_def
  segment_dir_def for_loop.simps demo_defs num_defs aux_defs

lemma sqrt_25_4: "sqrt (25 / 4) = 5 / 2"
  by (rule real_sqrt_unique) (simp_all add: power2_eq_square)

lemma sqrt_1444_625: "sqrt (1444 / 625) = 38 / 25"
  by (rule real_sqrt_unique) (simp_all add: power2_eq_square)

lemma demo_Add_bent:
  "Add demo () (demo_trk 6) (demo_cand [(demo_trk 1, 0), (demo_trk 2, 0)])
   = Inr (True, (demo_cand [(demo_trk 1, 0), (demo_trk 2, 0), (demo_trk 6, 0)])
                  \<lparr>fErr := TVector3 (Fin (sqrt (59 / 150))) (Fin 1) (Fin 1)\<rparr>)"
  by (simp add: eval_defs sqrt_25_4 sqrt_1444_625)

lemma demo_trial_0:
  "Add_trial demo () (demo_trk 6) (demo_cand [(demo_trk 1, 0), (demo_trk 2, 0)]) 0
   = Inr (Some (Fin 0, Fin (5 / 2)))"
  by (simp add: Add_trial_def eval_defs sqrt_25_4)

lemma demo_trial_1:
  "Add_trial demo () (demo_trk 6) (demo_cand [(demo_trk 1, 0), (demo_trk 2, 0)]) 1
   = Inr (Some (Fin (4 / 3), Fin (38 / 25)))"
  by (simp add: Add_trial_def eval_defs sqrt_1444_625)

lemma demo_greedy:
  "Add_greedy demo () (demo_trk 6) (demo_cand [(demo_trk 1, 0), (demo_trk 2, 0)]) 1 = (Fin 0, 0, Fin (5 / 2)) \<and>
   Add_greedy demo () (demo_trk 6) (demo_cand [(demo_trk 1, 0), (demo_trk 2, 0)]) 2 = (Fin 0, 0, Fin (5 / 2))"
proof -
  have 1: "Add_greedy demo () (demo_trk 6) (demo_cand [(demo_trk 1, 0), (demo_trk 2, 0)]) (Suc 0) = (Fin 0, 0, Fin (5 / 2))"
    using demo_trial_0 by (simp add: kMaxDistToTrack_def)
  have 2: "Add_greedy demo () (demo_trk 6) (demo_cand [(demo_trk 1, 0), (demo_trk 2, 0)]) (Suc (Suc 0)) = (Fin 0, 0, Fin (5 / 2))"
    using 1 demo_trial_1 by (simp del: Add_greedy.simps(1) add: Add_greedy.simps(2) [of _ _ _ _ "Suc 0"])
  show ?thesis using 1 2 by (simp add: numeral_2_eq_2)
qed

lemma demo_not_attached_6:
  "IsAttached demo () (demo_cand [(demo_trk 1, 0), (demo_trk 2, 0)]) (Track (demo_trk 6)) = Inr False"
  by (simp add: eval_defs)

lemma demo_hi_6: "size_minus_1 (Nodes demo () (Track (demo_trk 6))) = 2"
  by (simp add: demo_defs size_minus_1_def)

lemma demo_MaxAngle_reference:
  "MaxAngle_reference demo () (demo_cand [(demo_trk 1, 0), (demo_trk 2, 0)])
   = Inr (0, Fin 1, TVector3 (Fin 1) (Fin 0) (Fin 0))"
  by (simp add: angle_defs)

lemma demo_MaxAngle_right:
  "MaxAngle demo () (demo_cand [(demo_trk 1, 0), (demo_trk 2, 0)]) (Fin 0) = Inr (Fin 90)"
  by (simp add: angle_defs)

subsection \<open>General facts\<close>

text \<open>The order of \<^verbatim>\<open>double\<close>: every comparison with a NaN is false.\<close>

lemma less_double_trans: "(a::double) < b \<Longrightarrow> b < c \<Longrightarrow> a < c"
  by (cases a; cases b; cases c) auto

lemma less_double_irrefl: "\<not> (a::double) < a"
  by (cases a) auto

lemma less_double_not_less: "\<not> (a::double) < b \<Longrightarrow> a < c \<Longrightarrow> \<not> c < b"
  by (cases a; cases b; cases c) auto

lemma fabs_less_Fin: "fabs v < Fin x \<Longrightarrow> \<exists>y. fabs v = Fin y \<and> 0 \<le> y \<and> y < x"
  by (cases v) (auto simp: fabs_def)

lemma fabs_le_Fin: "fabs v \<le> Fin x \<Longrightarrow> \<exists>y. fabs v = Fin y \<and> 0 \<le> y \<and> y \<le> x"
  by (cases v) (auto simp: fabs_def)

text \<open>A property that holds before a loop and is kept by its body holds after it.\<close>

lemma for_loop_rule:
  assumes "for_loop lo hi body s = Inr s'"
      and "P lo s"
      and "\<And>n t t'. lo \<le> n \<Longrightarrow> n < hi \<Longrightarrow> P n t \<Longrightarrow> body n t = Inr t' \<Longrightarrow> P (Suc n) t'"
      and "lo \<le> hi"
  shows "P hi s'"
  using assms
proof (induction lo hi body s rule: for_loop.induct)
  case (1 n hi body s)
  show ?case
  proof (cases "n < hi")
    case False
    with "1.prems" show ?thesis by (simp add: for_loop.simps [of n])
  next
    case True
    with "1.prems"(1) obtain t where t: "body n s = Inr t" "for_loop (Suc n) hi body t = Inr s'"
      by (auto simp: for_loop.simps [of n] split: sum.splits)
    have "P (Suc n) t" using "1.prems"(3) [OF _ True "1.prems"(2) t(1)] by simp
    moreover have "\<And>m u u'. Suc n \<le> m \<Longrightarrow> m < hi \<Longrightarrow> P m u \<Longrightarrow> body m u = Inr u' \<Longrightarrow> P (Suc m) u'"
      using "1.prems"(3) by simp
    ultimately show ?thesis using "1.IH" [OF True t(1) t(2)] True by simp
  qed
qed

lemma size_minus_1_Nil: "size_minus_1 [] = 2 ^ 64 - 1"
  by (simp add: size_minus_1_def unsigned_minus_1_eq_mask mask_eq_exp_minus_1)

lemma size_minus_1_pos: "xs \<noteq> [] \<Longrightarrow> length xs < 2 ^ 64 \<Longrightarrow> size_minus_1 xs = length xs - 1"
proof -
  assume a: "xs \<noteq> []" "length xs < 2 ^ 64"
  then have "(of_nat (length xs) :: size_t) \<noteq> 0" by (intro of_nat_neq_0) simp_all
  then show ?thesis using a(2) by (simp add: size_minus_1_def unat_minus_one unat_of_nat)
qed

text \<open>
  \<^verbatim>\<open>Compute\<close> changes centre and error only, and does not read them.
\<close>

lemma Compute_overwrites: "Compute E g (c\<lparr>fCenter := cen, fErr := err\<rparr>) = Compute E g c"
  by (simp add: Compute_def Let_def split: sum.splits prod.splits)

lemma Compute_fields:
  "Compute E g c = Inr (r, c') \<Longrightarrow> c' = c\<lparr>fCenter := fCenter c', fErr := fErr c'\<rparr>"
  by (auto simp: Compute_def Let_def split: sum.splits prod.splits if_splits)

lemma set_back_second_snoc: "set_back_second (xs @ [(t, k)]) n = xs @ [(t, n)]"
  by (simp add: set_back_second_def)

lemma Compute_result:
  "Compute E g c = Inr (r, c') \<Longrightarrow> \<exists>cen err. c' = c\<lparr>fCenter := cen, fErr := err\<rparr>"
  by (auto simp: Compute_def Let_def split: sum.splits prod.splits if_splits)

lemma derived_Compute:
  "derived_from_assigned E g c \<Longrightarrow> Compute E g c = Inr (fMse c, c)"
proof -
  assume d: "derived_from_assigned E g c"
  then obtain mse cc where cc: "Compute E g c = Inr (mse, cc)"
    by (auto simp: derived_from_assigned_def split: sum.splits)
  with d have eq: "fCenter c = fCenter cc" "fErr c = fErr cc" "fMse c = mse"
    by (auto simp: derived_from_assigned_def)
  have "cc = c\<lparr>fCenter := fCenter cc, fErr := fErr cc\<rparr>" by (rule Compute_fields [OF cc])
  then have "cc = c\<lparr>fCenter := fCenter c, fErr := fErr c\<rparr>" by (simp only: eq)
  then have "cc = c" by simp
  with cc eq show ?thesis by simp
qed

lemma derived_ComputeMse2D:
  "derived_from_assigned E g c \<Longrightarrow> ComputeMse2D E g c = Inr (fMse2D c)"
  by (auto simp: derived_from_assigned_def split: sum.splits)

subsection \<open>\<^verbatim>\<open>MergeWith\<close> that fails\<close>

lemma MergeWith_append_prefix:
  "MergeWith_append E g ts c n = Inr (b, c1, n1) \<Longrightarrow>
   \<exists>ys. c1 = c\<lparr>fAssigned := fAssigned c @ ys\<rparr> \<and> n1 = n + length ys"
proof (induction ts arbitrary: c n)
  case Nil
  then show ?case by auto
next
  case (Cons t ts)
  show ?case
  proof (cases "IsAttached E g c (Track (fst t))")
    case (Inl e)
    with Cons.prems show ?thesis by simp
  next
    case (Inr att)
    show ?thesis
    proof (cases att)
      case True
      with Inr Cons.prems show ?thesis by auto
    next
      case False
      show ?thesis
      proof (cases "Has c (Track (fst t))")
        case True
        with False Inr Cons.prems have "MergeWith_append E g ts c n = Inr (b, c1, n1)" by simp
        from Cons.IH [OF this] show ?thesis .
      next
        case nh: False
        with False Inr Cons.prems
        have "MergeWith_append E g ts (c\<lparr>fAssigned := fAssigned c @ [t]\<rparr>) (Suc n) = Inr (b, c1, n1)"
          by simp
        from Cons.IH [OF this] obtain ys where
          "c1 = c\<lparr>fAssigned := fAssigned c @ [t]\<rparr>\<lparr>fAssigned := fAssigned (c\<lparr>fAssigned := fAssigned c @ [t]\<rparr>) @ ys\<rparr>"
          "n1 = Suc n + length ys" by blast
        then have "c1 = c\<lparr>fAssigned := fAssigned c @ (t # ys)\<rparr> \<and> n1 = n + length (t # ys)" by simp
        then show ?thesis by blast
      qed
    qed
  qed
qed

lemma pop_back_many: "(butlast ^^ length ys) (xs @ ys) = xs"
proof (induction ys rule: rev_induct)
  case Nil
  then show ?case by simp
next
  case (snoc y ys)
  have b: "butlast (xs @ ys @ [y]) = xs @ ys" by (simp add: butlast_append)
  show ?case using snoc by (simp add: funpow_swap1 b)
qed

text \<open>
  Unless the loop over the pairs of \<open>other\<close> was left from inside, a failed
  \<^verbatim>\<open>MergeWith\<close> leaves the assigned set of the call: the distance gate and the case of
  no new track change nothing, and the roll-back on a high residual pops what was
  appended.
\<close>

lemma MergeWith_failure_assigned:
  assumes "MergeWith E g other c = Inr (False, c')"
  shows "fAssigned c' = fAssigned c \<or>
         (\<exists>n. MergeWith_append E g (fAssigned other) c 0 = Inr (False, c', n))"
proof (cases "Fin 10 < sqrt_double (Dist2 E (fCenter c) (fCenter other))")
  case True
  with assms show ?thesis by (simp add: MergeWith_def)
next
  case far: False
  show ?thesis
  proof (cases "MergeWith_append E g (fAssigned other) c 0")
    case (Inl e)
    with far assms show ?thesis by (simp add: MergeWith_def)
  next
    case (Inr r)
    obtain b c1 n where r: "r = (b, c1, n)" by (cases r) auto
    from MergeWith_append_prefix [OF Inr [unfolded r]] obtain ys where
      ys: "c1 = c\<lparr>fAssigned := fAssigned c @ ys\<rparr>" "n = length ys" by auto
    show ?thesis
    proof (cases b)
      case False
      with far Inr r assms show ?thesis by (auto simp: MergeWith_def)
    next
      case True
      show ?thesis
      proof (cases "n = 0")
        case True
        with \<open>b\<close> far Inr r assms ys show ?thesis by (auto simp: MergeWith_def)
      next
        case False
        with \<open>b\<close> far Inr r assms obtain mse c2 mse' c3 m2 where
          c2: "Compute E g c1 = Inr (mse, c2)" and
          c3: "Compute E g (c2\<lparr>fAssigned := (butlast ^^ n) (fAssigned c2)\<rparr>) = Inr (mse', c3)" and
          c': "c' = c3\<lparr>fMse := mse', fMse2D := m2\<rparr>"
          by (auto simp: MergeWith_def split: sum.splits if_splits)
        from Compute_fields [OF c2] have "fAssigned c2 = fAssigned c1"
          by (metis VtxCandidate.select_convs(1) VtxCandidate.surjective VtxCandidate.update_convs(2,3))
        moreover from Compute_fields [OF c3]
        have "fAssigned c3 = (butlast ^^ n) (fAssigned c2)"
          by (metis VtxCandidate.select_convs(1) VtxCandidate.surjective VtxCandidate.update_convs(1,2,3))
        ultimately show ?thesis using c' ys by (simp add: pop_back_many)
      qed
    qed
  qed
qed

text \<open>
  Where the loop was not left from inside and the derived state was the recomputed
  one, a failed \<^verbatim>\<open>MergeWith\<close> leaves the whole candidate as it was.
\<close>

lemma MergeWith_failure_restores:
  assumes fail: "MergeWith E g other c = Inr (False, c')"
      and der: "derived_from_assigned E g c"
  shows "c' = c \<or> (\<exists>n. MergeWith_append E g (fAssigned other) c 0 = Inr (False, c', n))"
proof (cases "Fin 10 < sqrt_double (Dist2 E (fCenter c) (fCenter other))")
  case True
  with fail show ?thesis by (simp add: MergeWith_def)
next
  case far: False
  show ?thesis
  proof (cases "MergeWith_append E g (fAssigned other) c 0")
    case (Inl e)
    with far fail show ?thesis by (simp add: MergeWith_def)
  next
    case (Inr r)
    obtain b c1 n where r: "r = (b, c1, n)" by (cases r) auto
    from MergeWith_append_prefix [OF Inr [unfolded r]] obtain ys where
      ys: "c1 = c\<lparr>fAssigned := fAssigned c @ ys\<rparr>" "n = length ys" by auto
    show ?thesis
    proof (cases b)
      case False
      with far Inr r fail show ?thesis by (auto simp: MergeWith_def)
    next
      case True
      show ?thesis
      proof (cases "n = 0")
        case True
        with \<open>b\<close> far Inr r fail ys show ?thesis by (auto simp: MergeWith_def)
      next
        case False
        with \<open>b\<close> far Inr r fail obtain mse c2 mse' c3 m2 where
          c2: "Compute E g c1 = Inr (mse, c2)" and
          c3: "Compute E g (c2\<lparr>fAssigned := (butlast ^^ n) (fAssigned c2)\<rparr>) = Inr (mse', c3)" and
          m2: "ComputeMse2D E g (c3\<lparr>fMse := mse'\<rparr>) = Inr m2" and
          c': "c' = c3\<lparr>fMse := mse', fMse2D := m2\<rparr>"
          by (auto simp: MergeWith_def split: sum.splits if_splits)
        from Compute_result [OF c2] obtain cen err where
          c2': "c2 = c1\<lparr>fCenter := cen, fErr := err\<rparr>" by blast
        have "c2\<lparr>fAssigned := (butlast ^^ n) (fAssigned c2)\<rparr> = c\<lparr>fCenter := cen, fErr := err\<rparr>"
          by (simp add: c2' ys pop_back_many)
        with c3 have "Compute E g c = Inr (mse', c3)" by (simp add: Compute_overwrites)
        with derived_Compute [OF der] have eq: "mse' = fMse c" "c3 = c" by simp_all
        with m2 derived_ComputeMse2D [OF der] have "m2 = fMse2D c" by simp
        with c' eq show ?thesis by simp
      qed
    qed
  qed
qed

text \<open>
  Claim C1 asks that every failed \<^verbatim>\<open>MergeWith\<close> leaves the assigned set as it was.
  The return on a track that is already attached does not: it leaves the loop with
  the pairs appended so far still in place. Here the candidate holds track 1; the
  other holds tracks 2 and 3, and track 3 hangs off track 1. Track 2 is appended,
  track 3 is found attached, and the call returns \<open>false\<close> with tracks 1 and 2
  assigned.
\<close>

theorem MergeWith_attached_no_rollback:
  "MergeWith demo_joined_1_3 () (demo_cand [(demo_trk 2, 0), (demo_trk 3, 0)]) (demo_cand [(demo_trk 1, 0)])
   = Inr (False, demo_cand [(demo_trk 1, 0), (demo_trk 2, 0)])"
  by (simp add: MergeWith_def IsAttached_def Has_def demo_joined_simps demo_trk_def demo_cand_def
      demo_Dist2_def num_defs)

subsection \<open>The branches removed when \<^verbatim>\<open>JoinTracks\<close> fails\<close>

lemma erase_track_None: "erase_track b ts = None \<longleftrightarrow> b \<notin> Track ` set ts"
  by (induction ts) (auto split: option.splits)

lemma erase_track_Some:
  "erase_track b ts = Some r \<Longrightarrow>
   b \<in> Track ` set ts \<and> set r \<subseteq> set ts \<and>
   filter (\<lambda>t. Track t \<noteq> b) r = filter (\<lambda>t. Track t \<noteq> b) ts \<and>
   (distinct (map Track ts) \<longrightarrow> b \<notin> Track ` set r \<and> distinct (map Track r))"
proof (induction ts arbitrary: r)
  case Nil
  then show ?case by simp
next
  case (Cons t ts)
  show ?case
  proof (cases "Track t = b")
    case True
    with Cons.prems have "r = ts" by simp
    with True show ?thesis by auto
  next
    case False
    with Cons.prems obtain r' where r': "erase_track b ts = Some r'" "r = t # r'"
      by (auto split: option.splits)
    from Cons.IH [OF r'(1)] r'(2) False show ?thesis by auto
  qed
qed

lemma erase_track_keeps:
  "erase_track b ts = Some r \<Longrightarrow> x \<noteq> b \<Longrightarrow> x \<in> Track ` set ts \<Longrightarrow> x \<in> Track ` set r"
proof (induction ts arbitrary: r)
  case Nil
  then show ?case by simp
next
  case (Cons t ts)
  then show ?case by (auto split: if_splits option.splits)
qed

lemma remove_branches_deleted:
  "remove_branches E bs (g, ts, ds) = (g', ts', ds') \<Longrightarrow>
   set ds \<subseteq> set ds' \<and> (\<forall>b\<in>set bs. b \<in> Track ` set ts \<longrightarrow> b \<in> set ds')"
proof (induction bs arbitrary: g ts ds)
  case Nil
  then show ?case by simp
next
  case (Cons b bs)
  show ?case
  proof (cases "erase_track b ts")
    case None
    with Cons.prems have "remove_branches E bs (g, ts, ds) = (g', ts', ds')" by simp
    from Cons.IH [OF this] None show ?thesis by (auto simp: erase_track_None)
  next
    case (Some r)
    with Cons.prems have rec: "remove_branches E bs (delete_Track E b g, r, ds @ [b]) = (g', ts', ds')"
      by simp
    from Cons.IH [OF rec] have ih: "set (ds @ [b]) \<subseteq> set ds'"
      "\<forall>x\<in>set bs. x \<in> Track ` set r \<longrightarrow> x \<in> set ds'" by auto
    have "x \<in> set ds'" if "x \<in> set (b # bs)" "x \<in> Track ` set ts" for x
    proof (cases "x = b")
      case True
      with ih(1) show ?thesis by auto
    next
      case False
      with that have xb: "x \<in> set bs" by simp
      have "x \<in> Track ` set r"
        using erase_track_keeps [OF Some False that(2)] .
      with ih(2) xb show ?thesis by auto
    qed
    with ih(1) show ?thesis by auto
  qed
qed

lemma remove_branches_removed:
  "remove_branches E bs (g, ts, ds) = (g', ts', ds') \<Longrightarrow> distinct (map Track ts) \<Longrightarrow>
   distinct (map Track ts') \<and> set ts' \<subseteq> set ts \<and> (\<forall>b\<in>set bs. b \<notin> Track ` set ts')"
proof (induction bs arbitrary: g ts ds)
  case Nil
  then show ?case by simp
next
  case (Cons b bs)
  show ?case
  proof (cases "erase_track b ts")
    case None
    with Cons.prems have "remove_branches E bs (g, ts, ds) = (g', ts', ds')" by simp
    from Cons.IH [OF this Cons.prems(2)] None show ?thesis
      by (auto simp: erase_track_None)
  next
    case (Some r)
    with Cons.prems have rec: "remove_branches E bs (delete_Track E b g, r, ds @ [b]) = (g', ts', ds')"
      by simp
    from erase_track_Some [OF Some] Cons.prems(2)
    have r: "distinct (map Track r)" "b \<notin> Track ` set r" "set r \<subseteq> set ts" by auto
    from Cons.IH [OF rec r(1)] r show ?thesis by auto
  qed
qed

lemma remove_branches_others:
  "remove_branches E bs (g, ts, ds) = (g', ts', ds') \<Longrightarrow>
   filter (\<lambda>t. Track t \<notin> set bs) ts' = filter (\<lambda>t. Track t \<notin> set bs) ts"
proof (induction bs arbitrary: g ts ds)
  case Nil
  then show ?case by simp
next
  case (Cons b bs)
  have split: "filter (\<lambda>t. Track t \<notin> set (b # bs)) xs
               = filter (\<lambda>t. Track t \<notin> set bs) (filter (\<lambda>t. Track t \<noteq> b) xs)" for xs
    by (induction xs) auto
  have swap: "filter (\<lambda>t. Track t \<notin> set (b # bs)) xs
               = filter (\<lambda>t. Track t \<noteq> b) (filter (\<lambda>t. Track t \<notin> set bs) xs)" for xs
    by (induction xs) auto
  show ?case
  proof (cases "erase_track b ts")
    case None
    with Cons.prems have "remove_branches E bs (g, ts, ds) = (g', ts', ds')" by simp
    from Cons.IH [OF this] show ?thesis by (simp only: swap)
  next
    case (Some r)
    with Cons.prems have rec: "remove_branches E bs (delete_Track E b g, r, ds @ [b]) = (g', ts', ds')"
      by simp
    from Cons.IH [OF rec] have "filter (\<lambda>t. Track t \<notin> set (b # bs)) ts' = filter (\<lambda>t. Track t \<notin> set (b # bs)) r"
      by (simp only: swap)
    also have "\<dots> = filter (\<lambda>t. Track t \<notin> set (b # bs)) ts"
      using erase_track_Some [OF Some] by (simp only: split)
    finally show ?thesis .
  qed
qed

text \<open>
  Claim C2 says the branches are removed on every failure, also when fewer than two
  attachments succeeded. With tracks that refuse to be attached, the loop over tracks
  1 and 2 ends with \<^verbatim>\<open>nOK = 1\<close> and the vertex at node 10; no loop is found in the
  branches of the root, track 1; \<^verbatim>\<open>JoinTracks\<close> returns \<open>false\<close>, and tracks 1 and 2
  are both still in \<open>tracks\<close>, none deleted.
\<close>

theorem JoinTracks_one_attachment_counterexample:
  "for_loop 0 2 (JoinTracks_attach demo_refusing ((demo_cand [(demo_trk 1, 0), (demo_trk 2, 0)])\<lparr>tracksJoined := True\<rparr>))
      ((), [demo_trk 1, demo_trk 2], None, False, 0)
     = Inr ((), [demo_trk 1, demo_trk 2], Some 10, False, 1) \<and>
   JoinTracks_root demo_refusing () 10 = Inr 1 \<and>
   GetBranches demo_refusing () 1 = (True, [1]) \<and>
   JoinTracks demo_refusing
      (demo_world (demo_cand [(demo_trk 1, 0), (demo_trk 2, 0)]) [] [demo_trk 1, demo_trk 2])
     = Inr (False, demo_world ((demo_cand [(demo_trk 1, 0), (demo_trk 2, 0)])\<lparr>tracksJoined := True\<rparr>)
                     [demo_trk 1, demo_trk 2] [])"
  by (simp add: JoinTracks_def JoinTracks_attach_def JoinTracks_front_def JoinTracks_finish_def
      JoinTracks_root_def for_loop.simps demo_refusing_simps demo_trk_def demo_cand_def
      demo_world_def demo_point_def demo_nodes_def demo_Dist2_def demo_fraction_def num_defs aux_defs)

text \<open>
  Claim C2, amended. When a loop is detected in the branches of the root, or two or
  more attachments succeeded and the tuning of the full tree diverges,
  \<^verbatim>\<open>JoinTracks\<close> returns \<open>false\<close>; every branch that is held in \<open>tracks\<close> is deleted,
  its first entry erased from \<open>tracks\<close> (so that, the tracks of \<open>tracks\<close> being distinct,
  no branch is left in it), and the entries of other tracks stay as they were. When
  no loop is detected and fewer than two attachments succeeded, \<^verbatim>\<open>JoinTracks\<close> returns
  \<open>false\<close> and removes nothing.
\<close>

theorem JoinTracks_failure_removes_branches:
  assumes root: "JoinTracks_root E (graph w) v = Inr rootTrk"
      and br: "GetBranches E (graph w) rootTrk = (noLoops, bs)"
  shows "(\<not> noLoops \<or> (1 < nOK \<and> \<not> Fin (- 2) < fst (TuneFullTree E rootTrk (graph w))) \<longrightarrow>
          (\<exists>w'. JoinTracks_finish E (Some v) nOK w = Inr (False, w') \<and>
                (\<forall>b\<in>set bs. b \<in> Track ` set (tracks w) \<longrightarrow> b \<in> set (deleted w')) \<and>
                (distinct (map Track (tracks w)) \<longrightarrow> (\<forall>b\<in>set bs. b \<notin> Track ` set (tracks w'))) \<and>
                filter (\<lambda>t. Track t \<notin> set bs) (tracks w') = filter (\<lambda>t. Track t \<notin> set bs) (tracks w))) \<and>
         (noLoops \<and> nOK \<le> 1 \<longrightarrow> JoinTracks_finish E (Some v) nOK w = Inr (False, w))"
proof (intro conjI impI)
  assume "noLoops \<and> nOK \<le> 1"
  then show "JoinTracks_finish E (Some v) nOK w = Inr (False, w)"
    using root br by (simp add: JoinTracks_finish_def)
next
  assume fail: "\<not> noLoops \<or> (1 < nOK \<and> \<not> Fin (- 2) < fst (TuneFullTree E rootTrk (graph w)))"
  define w1 where "w1 = (if noLoops \<and> 1 < nOK
     then w\<lparr>graph := snd (TuneFullTree E rootTrk (graph w)),
            cand := (cand w)\<lparr>fAssigned := [], fCenter := Point3D E (graph w) v,
                              fMse := Fin 0, fMse2D := Fin 0\<rparr>\<rparr>
     else w)"
  obtain g2 trks dels where rb: "remove_branches E bs (graph w1, tracks w1, deleted w1) = (g2, trks, dels)"
    by (cases "remove_branches E bs (graph w1, tracks w1, deleted w1)") auto
  have tw: "tracks w1 = tracks w" by (simp add: w1_def)
  have fin: "JoinTracks_finish E (Some v) nOK w = Inr (False, w1\<lparr>graph := g2, tracks := trks, deleted := dels\<rparr>)"
    using root br fail rb by (auto simp: JoinTracks_finish_def w1_def Let_def split: prod.splits)
  show "\<exists>w'. JoinTracks_finish E (Some v) nOK w = Inr (False, w') \<and>
                (\<forall>b\<in>set bs. b \<in> Track ` set (tracks w) \<longrightarrow> b \<in> set (deleted w')) \<and>
                (distinct (map Track (tracks w)) \<longrightarrow> (\<forall>b\<in>set bs. b \<notin> Track ` set (tracks w'))) \<and>
                filter (\<lambda>t. Track t \<notin> set bs) (tracks w') = filter (\<lambda>t. Track t \<notin> set bs) (tracks w)"
    using fin remove_branches_deleted [OF rb] remove_branches_removed [OF rb] remove_branches_others [OF rb] tw
    by auto
qed

text \<open>
  The tuning diverges after tracks 1 and 2 have been attached: track 1, the one branch
  of the root, is erased from \<open>tracks\<close> and deleted.
\<close>

theorem JoinTracks_failure_removes_branches_witness:
  "JoinTracks_root demo_diverging
      (graph (demo_world ((demo_cand [(demo_trk 1, 0), (demo_trk 2, 0)])\<lparr>tracksJoined := True\<rparr>)
                [demo_trk 1, demo_trk 2] [])) 10 = Inr 1 \<and>
   GetBranches demo_diverging
      (graph (demo_world ((demo_cand [(demo_trk 1, 0), (demo_trk 2, 0)])\<lparr>tracksJoined := True\<rparr>)
                [demo_trk 1, demo_trk 2] [])) 1 = (True, [1]) \<and>
   (1::nat) < 2 \<and>
   \<not> Fin (- 2) < fst (TuneFullTree demo_diverging 1
      (graph (demo_world ((demo_cand [(demo_trk 1, 0), (demo_trk 2, 0)])\<lparr>tracksJoined := True\<rparr>)
                [demo_trk 1, demo_trk 2] []))) \<and>
   distinct (map Track (tracks (demo_world ((demo_cand [(demo_trk 1, 0), (demo_trk 2, 0)])\<lparr>tracksJoined := True\<rparr>)
                [demo_trk 1, demo_trk 2] []))) \<and>
   JoinTracks_finish demo_diverging (Some 10) 2
      (demo_world ((demo_cand [(demo_trk 1, 0), (demo_trk 2, 0)])\<lparr>tracksJoined := True\<rparr>)
         [demo_trk 1, demo_trk 2] [])
     = Inr (False, (demo_world ((demo_cand [])\<lparr>tracksJoined := True\<rparr>) [demo_trk 2] [])\<lparr>deleted := [1]\<rparr>)"
  using JoinTracks_failure_removes_branches
    [of demo_diverging "demo_world ((demo_cand [(demo_trk 1, 0), (demo_trk 2, 0)])\<lparr>tracksJoined := True\<rparr>)
         [demo_trk 1, demo_trk 2] []" 10 1 True "[1]" 2]
  by (simp add: JoinTracks_finish_def JoinTracks_root_def demo_diverging_simps demo_world_def
      demo_cand_def demo_trk_def demo_point_def num_defs aux_defs)

subsection \<open>Where the derived state is recomputed\<close>

lemma derived_after_recompute:
  "Compute E g c = Inr (mse, c2) \<Longrightarrow> ComputeMse2D E g (c2\<lparr>fMse := mse\<rparr>) = Inr m2 \<Longrightarrow>
   derived_from_assigned E g (c2\<lparr>fMse := mse, fMse2D := m2\<rparr>)"
  by (auto simp: derived_from_assigned_def Compute_def ComputeMse2D_def Let_def
      split: sum.splits prod.splits if_splits)

lemma Add_many_derived:
  "Add_many E g trk c0 = Inr (b, c') \<Longrightarrow> derived_from_assigned E g c'"
  by (auto simp: Add_many_def split: sum.splits prod.splits if_splits
      intro: derived_after_recompute)

lemma Add_second_derived:
  "Add_second E g trk c0 = Inr (True, c') \<Longrightarrow> derived_from_assigned E g c'"
  by (auto simp: Add_second_def Let_def split: sum.splits prod.splits if_splits
      intro: derived_after_recompute)

lemma MergeWith_derived:
  "MergeWith E g other c = Inr (True, c') \<Longrightarrow> derived_from_assigned E g c'"
  by (auto simp: MergeWith_def Let_def split: sum.splits prod.splits if_splits
      intro: derived_after_recompute)

lemma Add_first_untouched:
  "Add E g trk c = Inr (True, c') \<Longrightarrow> fAssigned c = [] \<Longrightarrow> c' = c\<lparr>fAssigned := [(trk, 0)]\<rparr>"
  by (auto simp: Add_def Add_first_def Let_def split: sum.splits if_splits)

lemma JoinTracks_commit_cand:
  "JoinTracks E w = Inr (True, w') \<Longrightarrow>
   fAssigned (cand w') = [] \<and> fMse (cand w') = Fin 0 \<and> fMse2D (cand w') = Fin 0"
  by (auto simp: JoinTracks_def JoinTracks_finish_def Let_def
      split: sum.splits prod.splits if_splits option.splits)

subsection \<open>\<^verbatim>\<open>Add\<close> of a third or later track\<close>

lemma Add_many_body_trial:
  assumes ck: "ck = c\<lparr>fAssigned := fAssigned c @ [(trk, k)], fCenter := cen, fErr := err\<rparr>"
      and body: "Add_many_body E g trk n (ck, min_mse, n_best, d_best) = Inr t"
  shows "\<exists>k' cen' err' r. fst t = c\<lparr>fAssigned := fAssigned c @ [(trk, k')], fCenter := cen', fErr := err'\<rparr> \<and>
           Add_trial E g trk c n = Inr r \<and>
           snd t = (case r of
                      None \<Rightarrow> (min_mse, n_best, d_best)
                    | Some (m, d) \<Rightarrow> if m < min_mse \<and> d < d_best then (m, n, d) else (min_mse, n_best, d_best))"
proof -
  from body obtain node where node: "vector_at (Nodes E g (Track trk)) n = Inr node"
    by (auto simp: Add_many_body_def split: sum.splits)
  from body node obtain seg where seg: "NextSegment E g (Track trk) node = Some seg"
    by (auto simp: Add_many_body_def split: option.splits)
  show ?thesis
  proof (cases "Seg_Length E g seg < fSegMinLength c")
    case True
    with body node seg ck have "t = (ck, min_mse, n_best, d_best)"
      by (simp add: Add_many_body_def)
    with True node seg ck show ?thesis by (auto simp: Add_trial_def)
  next
    case False
    have upd: "ck\<lparr>fAssigned := set_back_second (fAssigned ck) n\<rparr>
               = (c\<lparr>fAssigned := fAssigned c @ [(trk, n)]\<rparr>)\<lparr>fCenter := cen, fErr := err\<rparr>"
      by (simp add: ck set_back_second_snoc)
    from body node seg False ck obtain mse c' where
      cmp: "Compute E g (ck\<lparr>fAssigned := set_back_second (fAssigned ck) n\<rparr>) = Inr (mse, c')"
      by (auto simp: Add_many_body_def split: sum.splits)
    then have cmp': "Compute E g (c\<lparr>fAssigned := fAssigned c @ [(trk, n)]\<rparr>) = Inr (mse, c')"
      by (simp add: upd Compute_overwrites)
    from Compute_fields [OF cmp']
    have c': "c' = c\<lparr>fAssigned := fAssigned c @ [(trk, n)], fCenter := fCenter c', fErr := fErr c'\<rparr>"
      by simp
    let ?d = "sqrt_double (GetDistance2To E g seg (fCenter c'))"
    have tr: "Add_trial E g trk c n = Inr (Some (mse, ?d))"
      using node seg False cmp' by (simp add: Add_trial_def)
    have t: "t = (c', if mse < min_mse \<and> ?d < d_best then (mse, n, ?d) else (min_mse, n_best, d_best))"
      using body node seg False cmp ck by (auto simp: Add_many_body_def Let_def split: if_splits)
    show ?thesis using t tr c' by auto
  qed
qed

lemma Add_many_inv_step:
  assumes inv: "Add_many_inv E g trk c n s" and body: "Add_many_body E g trk n s = Inr t"
  shows "Add_many_inv E g trk c (Suc n) t"
proof -
  obtain ck min_mse n_best d_best where s: "s = (ck, min_mse, n_best, d_best)" by (cases s) auto
  from inv s obtain k cen err where
    ck: "ck = c\<lparr>fAssigned := fAssigned c @ [(trk, k)], fCenter := cen, fErr := err\<rparr>"
    by (auto simp: Add_many_inv_def)
  from Add_many_body_trial [OF ck body [unfolded s]] obtain k' cen' err' r where
    t1: "fst t = c\<lparr>fAssigned := fAssigned c @ [(trk, k')], fCenter := cen', fErr := err'\<rparr>" and
    tr: "Add_trial E g trk c n = Inr r" and
    t2: "snd t = (case r of
                      None \<Rightarrow> (min_mse, n_best, d_best)
                    | Some (m, d) \<Rightarrow> if m < min_mse \<and> d < d_best then (m, n, d) else (min_mse, n_best, d_best))"
    by blast
  from inv s have alt:
    "(min_mse = Fin 16 \<and> d_best = Fin 4 \<and>
          (\<forall>j<n. \<forall>m d. Add_trial E g trk c j = Inr (Some (m, d)) \<longrightarrow> \<not> (m < Fin 16 \<and> d < Fin 4)))
     \<or> (n_best < n \<and> Add_trial E g trk c n_best = Inr (Some (min_mse, d_best)) \<and>
          min_mse < Fin 16 \<and> d_best < Fin 4 \<and>
          (\<forall>j. n_best < j \<and> j < n \<longrightarrow>
             (\<forall>m d. Add_trial E g trk c j = Inr (Some (m, d)) \<longrightarrow> \<not> (m < min_mse \<and> d < d_best))))"
    by (auto simp: Add_many_inv_def)
  have bound: "min_mse = Fin 16 \<or> min_mse < Fin 16" "d_best = Fin 4 \<or> d_best < Fin 4"
    using alt by auto
  show ?thesis
  proof (cases r)
    case None
    with t2 have "snd t = (min_mse, n_best, d_best)" by simp
    with t1 have t: "t = (c\<lparr>fAssigned := fAssigned c @ [(trk, k')], fCenter := cen', fErr := err'\<rparr>, min_mse, n_best, d_best)"
      by (cases t) auto
    show ?thesis using alt tr None unfolding t Add_many_inv_def
      by (auto simp: less_Suc_eq)
  next
    case (Some md)
    obtain m d where md: "md = (m, d)" by (cases md) auto
    show ?thesis
    proof (cases "m < min_mse \<and> d < d_best")
      case True
      with t2 Some md have "snd t = (m, n, d)" by simp
      with t1 have t: "t = (c\<lparr>fAssigned := fAssigned c @ [(trk, k')], fCenter := cen', fErr := err'\<rparr>, m, n, d)"
        by (cases t) auto
      have "m < Fin 16" "d < Fin 4" using True bound less_double_trans by blast+
      then show ?thesis using tr Some md unfolding t Add_many_inv_def by auto
    next
      case False
      with t2 Some md have "snd t = (min_mse, n_best, d_best)" by simp
      with t1 have t: "t = (c\<lparr>fAssigned := fAssigned c @ [(trk, k')], fCenter := cen', fErr := err'\<rparr>, min_mse, n_best, d_best)"
        by (cases t) auto
      show ?thesis using alt tr Some md False unfolding t Add_many_inv_def
        by (auto simp: less_Suc_eq)
    qed
  qed
qed

lemma Add_trial_Some:
  "Add_trial E g trk c n = Inr (Some (m, d)) \<Longrightarrow>
   \<exists>c'. Compute E g (c\<lparr>fAssigned := fAssigned c @ [(trk, n)]\<rparr>) = Inr (m, c')"
  by (auto simp: Add_trial_def split: sum.splits option.splits if_splits)

lemma Add_many_search:
  assumes loop: "for_loop 0 hi (Add_many_body E g trk)
                   (c\<lparr>fAssigned := fAssigned c @ [(trk, 0)]\<rparr>, Fin 16, 0, Fin 4) = Inr s"
  shows "Add_many_inv E g trk c hi s"
proof (rule for_loop_rule [OF loop, where P = "Add_many_inv E g trk c"])
  have "c\<lparr>fAssigned := fAssigned c @ [(trk, 0)]\<rparr>
        = c\<lparr>fAssigned := fAssigned c @ [(trk, 0)], fCenter := fCenter c, fErr := fErr c\<rparr>"
    by simp
  then show "Add_many_inv E g trk c 0 (c\<lparr>fAssigned := fAssigned c @ [(trk, 0)]\<rparr>, Fin 16, 0, Fin 4)"
    unfolding Add_many_inv_def by blast
next
  fix n t t'
  assume "Add_many_inv E g trk c n t" "Add_many_body E g trk n t = Inr t'"
  then show "Add_many_inv E g trk c (Suc n) t'" by (rule Add_many_inv_step)
qed simp

lemma Add_greedy_inv_step:
  assumes inv: "Add_greedy_inv E g trk c n s" and body: "Add_many_body E g trk n s = Inr t"
  shows "Add_greedy_inv E g trk c (Suc n) t"
proof -
  obtain ck min_mse n_best d_best where s: "s = (ck, min_mse, n_best, d_best)" by (cases s) auto
  from inv s obtain k cen err where
    ck: "ck = c\<lparr>fAssigned := fAssigned c @ [(trk, k)], fCenter := cen, fErr := err\<rparr>" and
    gr: "Add_greedy E g trk c n = (min_mse, n_best, d_best)" and
    ok: "\<forall>j<n. \<exists>r. Add_trial E g trk c j = Inr r"
    by (auto simp: Add_greedy_inv_def)
  from Add_many_body_trial [OF ck body [unfolded s]] obtain k' cen' err' r where
    t1: "fst t = c\<lparr>fAssigned := fAssigned c @ [(trk, k')], fCenter := cen', fErr := err'\<rparr>" and
    tr: "Add_trial E g trk c n = Inr r" and
    t2: "snd t = (case r of
                      None \<Rightarrow> (min_mse, n_best, d_best)
                    | Some (m, d) \<Rightarrow> if m < min_mse \<and> d < d_best then (m, n, d) else (min_mse, n_best, d_best))"
    by blast
  have "snd t = Add_greedy E g trk c (Suc n)"
    using t2 tr gr by (simp split: option.splits)
  moreover have "\<forall>j<Suc n. \<exists>r. Add_trial E g trk c j = Inr r"
    using ok tr by (auto simp: less_Suc_eq)
  ultimately show ?thesis using t1 unfolding Add_greedy_inv_def by blast
qed

lemma Add_many_greedy:
  assumes loop: "for_loop 0 hi (Add_many_body E g trk)
                   (c\<lparr>fAssigned := fAssigned c @ [(trk, 0)]\<rparr>, Fin 16, 0, Fin 4) = Inr s"
  shows "Add_greedy_inv E g trk c hi s"
proof (rule for_loop_rule [OF loop, where P = "Add_greedy_inv E g trk c"])
  have "c\<lparr>fAssigned := fAssigned c @ [(trk, 0)]\<rparr>
        = c\<lparr>fAssigned := fAssigned c @ [(trk, 0)], fCenter := fCenter c, fErr := fErr c\<rparr>"
    by simp
  then have "\<exists>k cen err. c\<lparr>fAssigned := fAssigned c @ [(trk, 0)]\<rparr>
        = c\<lparr>fAssigned := fAssigned c @ [(trk, k)], fCenter := cen, fErr := err\<rparr>" by blast
  then show "Add_greedy_inv E g trk c 0 (c\<lparr>fAssigned := fAssigned c @ [(trk, 0)]\<rparr>, Fin 16, 0, Fin 4)"
    by (simp add: Add_greedy_inv_def kMaxDistToTrack_def)
next
  fix n t t'
  assume "Add_greedy_inv E g trk c n t" "Add_many_body E g trk n t = Inr t'"
  then show "Add_greedy_inv E g trk c (Suc n) t'" by (rule Add_greedy_inv_step)
qed simp

text \<open>
  Claim C3 says the accepted segment is the one of least distance among the segments
  whose residual is below \<^verbatim>\<open>kMaxDistToTrack\<close> squared. The loop also lowers the
  bound on the residual to that of the segment it has taken. Track 6 is added to
  tracks 1 and 2: its segment 0 lies on a line through the crossing point, 2.5 away
  (residual 0, distance 2.5); its segment 1 passes at distance 2 (residual 4/3,
  distance 1.52 of the fitted point). Segment 1 has the smaller distance and a
  residual below 16, and \<^verbatim>\<open>Add\<close> accepts segment 0.
\<close>

theorem Add_third_track_counterexample:
  "Add demo () (demo_trk 6) (demo_cand [(demo_trk 1, 0), (demo_trk 2, 0)])
     = Inr (True, (demo_cand [(demo_trk 1, 0), (demo_trk 2, 0), (demo_trk 6, 0)])
                    \<lparr>fErr := TVector3 (Fin (sqrt (59 / 150))) (Fin 1) (Fin 1)\<rparr>) \<and>
   Add_trial demo () (demo_trk 6) (demo_cand [(demo_trk 1, 0), (demo_trk 2, 0)]) 0
     = Inr (Some (Fin 0, Fin (5 / 2))) \<and>
   Add_trial demo () (demo_trk 6) (demo_cand [(demo_trk 1, 0), (demo_trk 2, 0)]) 1
     = Inr (Some (Fin (4 / 3), Fin (38 / 25))) \<and>
   Fin (4 / 3) < kMaxDistToTrack * kMaxDistToTrack \<and>
   Fin (38 / 25) < Fin (5 / 2)"
  using demo_Add_bent demo_trial_0 demo_trial_1 by (simp add: kMaxDistToTrack_def)

text \<open>
  What the loop guarantees of the segment it ends with: it has a residual and a
  distance below the bounds, and no later segment is better in both.
\<close>

lemma Add_third_track_bounds:
  assumes add: "Add E g trk c = Inr (b, c')"
      and len: "2 \<le> length (fAssigned c)"
      and na: "IsAttached E g c (Track trk) = Inr False"
  shows "(b \<longleftrightarrow> (\<exists>n < size_minus_1 (Nodes E g (Track trk)). \<exists>m d.
                 Add_trial E g trk c n = Inr (Some (m, d)) \<and>
                 m < kMaxDistToTrack * kMaxDistToTrack \<and> d < kMaxDistToTrack)) \<and>
         (b \<longrightarrow> (\<exists>n < size_minus_1 (Nodes E g (Track trk)). \<exists>m d.
                 fAssigned c' = fAssigned c @ [(trk, n)] \<and> fMse c' = m \<and>
                 Add_trial E g trk c n = Inr (Some (m, d)) \<and>
                 m < kMaxDistToTrack * kMaxDistToTrack \<and> d < kMaxDistToTrack \<and>
                 (\<forall>j. n < j \<and> j < size_minus_1 (Nodes E g (Track trk)) \<longrightarrow>
                    (\<forall>m' d'. Add_trial E g trk c j = Inr (Some (m', d')) \<longrightarrow> \<not> (m' < m \<and> d' < d))))) \<and>
         (\<not> b \<longrightarrow> fAssigned c' = fAssigned c) \<and>
         derived_from_assigned E g c'"
proof -
  let ?hi = "size_minus_1 (Nodes E g (Track trk))"
  let ?c0 = "c\<lparr>fAssigned := fAssigned c @ [(trk, 0)]\<rparr>"
  have k: "kMaxDistToTrack * kMaxDistToTrack = Fin 16" "kMaxDistToTrack = Fin 4"
    by (simp_all add: kMaxDistToTrack_def)
  from add len na have many: "Add_many E g trk ?c0 = Inr (b, c')"
    by (simp add: Add_def Let_def)
  then obtain s where loop: "for_loop 0 ?hi (Add_many_body E g trk) (?c0, Fin 16, 0, Fin 4) = Inr s"
    by (auto simp: Add_many_def k split: sum.splits)
  obtain c1 min_mse n_best d_best where s: "s = (c1, min_mse, n_best, d_best)" by (cases s) auto
  from Add_many_search [OF loop] s obtain kk cen err where
    c1: "c1 = c\<lparr>fAssigned := fAssigned c @ [(trk, kk)], fCenter := cen, fErr := err\<rparr>" and
    alt: "(min_mse = Fin 16 \<and> d_best = Fin 4 \<and>
            (\<forall>j<?hi. \<forall>m d. Add_trial E g trk c j = Inr (Some (m, d)) \<longrightarrow> \<not> (m < Fin 16 \<and> d < Fin 4)))
          \<or> (n_best < ?hi \<and> Add_trial E g trk c n_best = Inr (Some (min_mse, d_best)) \<and>
              min_mse < Fin 16 \<and> d_best < Fin 4 \<and>
              (\<forall>j. n_best < j \<and> j < ?hi \<longrightarrow>
                 (\<forall>m d. Add_trial E g trk c j = Inr (Some (m, d)) \<longrightarrow> \<not> (m < min_mse \<and> d < d_best))))"
    by (auto simp: Add_many_inv_def)
  have der: "derived_from_assigned E g c'" using many by (rule Add_many_derived)
  show ?thesis
  proof (cases "d_best < Fin 4")
    case True
    with alt have best: "n_best < ?hi" "Add_trial E g trk c n_best = Inr (Some (min_mse, d_best))"
      "min_mse < Fin 16"
      "\<forall>j. n_best < j \<and> j < ?hi \<longrightarrow>
          (\<forall>m d. Add_trial E g trk c j = Inr (Some (m, d)) \<longrightarrow> \<not> (m < min_mse \<and> d < d_best))"
      by (auto simp: less_double_irrefl)
    from Add_trial_Some [OF best(2)] obtain cb where
      cb: "Compute E g (c\<lparr>fAssigned := fAssigned c @ [(trk, n_best)]\<rparr>) = Inr (min_mse, cb)" by blast
    have upd: "c1\<lparr>fAssigned := set_back_second (fAssigned c1) n_best\<rparr>
               = (c\<lparr>fAssigned := fAssigned c @ [(trk, n_best)]\<rparr>)\<lparr>fCenter := cen, fErr := err\<rparr>"
      by (simp add: c1 set_back_second_snoc)
    have cmp: "Compute E g (c1\<lparr>fAssigned := set_back_second (fAssigned c1) n_best\<rparr>) = Inr (min_mse, cb)"
      by (simp add: upd Compute_overwrites cb)
    from many loop s True cmp obtain m2 where
      res: "b = True" "c' = cb\<lparr>fMse := min_mse, fMse2D := m2\<rparr>"
      by (auto simp: Add_many_def k split: sum.splits)
    from Compute_fields [OF cb]
    have "fAssigned cb = fAssigned c @ [(trk, n_best)]"
      by (metis VtxCandidate.select_convs(1) VtxCandidate.surjective VtxCandidate.update_convs(1,2,3))
    with res have c': "fAssigned c' = fAssigned c @ [(trk, n_best)]" "fMse c' = min_mse" by simp_all
    have A: "\<exists>n < ?hi. \<exists>m d. Add_trial E g trk c n = Inr (Some (m, d)) \<and> m < Fin 16 \<and> d < Fin 4"
      using best(1,2,3) True by blast
    have B: "\<exists>n < ?hi. \<exists>m d.
                 fAssigned c' = fAssigned c @ [(trk, n)] \<and> fMse c' = m \<and>
                 Add_trial E g trk c n = Inr (Some (m, d)) \<and> m < Fin 16 \<and> d < Fin 4 \<and>
                 (\<forall>j. n < j \<and> j < ?hi \<longrightarrow>
                    (\<forall>m' d'. Add_trial E g trk c j = Inr (Some (m', d')) \<longrightarrow> \<not> (m' < m \<and> d' < d)))"
      apply (rule exI [of _ n_best])
      apply (rule conjI [OF best(1)])
      apply (rule exI [of _ min_mse])
      apply (rule exI [of _ d_best])
      using c' best(2,3,4) True apply simp
      done
    show ?thesis unfolding k res(1) using A B der by simp
  next
    case False
    with alt have none: "\<forall>j<?hi. \<forall>m d. Add_trial E g trk c j = Inr (Some (m, d)) \<longrightarrow> \<not> (m < Fin 16 \<and> d < Fin 4)"
      by auto
    from many loop s False obtain mse cb m2 where
      cmp: "Compute E g (c1\<lparr>fAssigned := butlast (fAssigned c1)\<rparr>) = Inr (mse, cb)" and
      res: "b = False" "c' = cb\<lparr>fMse := mse, fMse2D := m2\<rparr>"
      by (auto simp: Add_many_def k split: sum.splits)
    from Compute_fields [OF cmp]
    have "fAssigned cb = butlast (fAssigned c1)"
      by (metis VtxCandidate.select_convs(1) VtxCandidate.surjective VtxCandidate.update_convs(1,2,3))
    with res c1 have c': "fAssigned c' = fAssigned c" by simp
    have A: "\<not> (\<exists>n < ?hi. \<exists>m d. Add_trial E g trk c n = Inr (Some (m, d)) \<and> m < Fin 16 \<and> d < Fin 4)"
      using none by blast
    show ?thesis unfolding k res(1) using A c' der by simp
  qed
qed

lemma Add_third_track_greedy:
  assumes add: "Add E g trk c = Inr (b, c')"
      and len: "2 \<le> length (fAssigned c)"
      and na: "IsAttached E g c (Track trk) = Inr False"
  shows "(\<forall>j < size_minus_1 (Nodes E g (Track trk)). \<exists>r. Add_trial E g trk c j = Inr r) \<and>
         (b \<longleftrightarrow> snd (snd (Add_greedy E g trk c (size_minus_1 (Nodes E g (Track trk))))) < kMaxDistToTrack) \<and>
         (b \<longrightarrow>
            fAssigned c' = fAssigned c @
               [(trk, fst (snd (Add_greedy E g trk c (size_minus_1 (Nodes E g (Track trk))))))] \<and>
            fMse c' = fst (Add_greedy E g trk c (size_minus_1 (Nodes E g (Track trk)))))"
proof -
  let ?hi = "size_minus_1 (Nodes E g (Track trk))"
  let ?c0 = "c\<lparr>fAssigned := fAssigned c @ [(trk, 0)]\<rparr>"
  have k: "kMaxDistToTrack * kMaxDistToTrack = Fin 16" "kMaxDistToTrack = Fin 4"
    by (simp_all add: kMaxDistToTrack_def)
  from add len na have many: "Add_many E g trk ?c0 = Inr (b, c')"
    by (simp add: Add_def Let_def)
  then obtain s where loop: "for_loop 0 ?hi (Add_many_body E g trk) (?c0, Fin 16, 0, Fin 4) = Inr s"
    by (auto simp: Add_many_def k split: sum.splits)
  obtain c1 min_mse n_best d_best where s: "s = (c1, min_mse, n_best, d_best)" by (cases s) auto
  from Add_many_greedy [OF loop] s obtain kk cen err where
    c1: "c1 = c\<lparr>fAssigned := fAssigned c @ [(trk, kk)], fCenter := cen, fErr := err\<rparr>" and
    gr: "Add_greedy E g trk c ?hi = (min_mse, n_best, d_best)" and
    ok: "\<forall>j<?hi. \<exists>r. Add_trial E g trk c j = Inr r"
    by (auto simp: Add_greedy_inv_def)
  from Add_many_search [OF loop] s have
    alt: "(min_mse = Fin 16 \<and> d_best = Fin 4)
          \<or> (Add_trial E g trk c n_best = Inr (Some (min_mse, d_best)))"
    by (auto simp: Add_many_inv_def)
  show ?thesis
  proof (cases "d_best < Fin 4")
    case True
    with alt have best: "Add_trial E g trk c n_best = Inr (Some (min_mse, d_best))"
      by (auto simp: less_double_irrefl)
    from Add_trial_Some [OF best] obtain cb where
      cb: "Compute E g (c\<lparr>fAssigned := fAssigned c @ [(trk, n_best)]\<rparr>) = Inr (min_mse, cb)" by blast
    have upd: "c1\<lparr>fAssigned := set_back_second (fAssigned c1) n_best\<rparr>
               = (c\<lparr>fAssigned := fAssigned c @ [(trk, n_best)]\<rparr>)\<lparr>fCenter := cen, fErr := err\<rparr>"
      by (simp add: c1 set_back_second_snoc)
    have cmp: "Compute E g (c1\<lparr>fAssigned := set_back_second (fAssigned c1) n_best\<rparr>) = Inr (min_mse, cb)"
      by (simp add: upd Compute_overwrites cb)
    from many loop s True cmp obtain m2 where
      res: "b = True" "c' = cb\<lparr>fMse := min_mse, fMse2D := m2\<rparr>"
      by (auto simp: Add_many_def k split: sum.splits)
    from Compute_result [OF cb] obtain cen' err' where
      "cb = c\<lparr>fAssigned := fAssigned c @ [(trk, n_best)]\<rparr>\<lparr>fCenter := cen', fErr := err'\<rparr>" by blast
    with res have c': "fAssigned c' = fAssigned c @ [(trk, n_best)]" "fMse c' = min_mse" by simp_all
    show ?thesis using ok c' True res(1) by (simp add: gr k)
  next
    case False
    from many loop s False have "b = False"
      by (auto simp: Add_many_def k split: sum.splits)
    then show ?thesis using ok False by (simp add: gr k)
  qed
qed

text \<open>
  Claim C3, amended. When \<^verbatim>\<open>Add\<close> brings the size to 3 or more, only the segment
  index of the new track is varied; the pairs assigned before stay as they are. The
  segments of the track that are not shorter than the minimum are tried in increasing
  \<open>n\<close>, every fit returning, and one is taken exactly when its residual is below the
  least residual taken so far (at first \<^verbatim>\<open>kMaxDistToTrack\<close> squared) and its
  distance below the least distance taken so far (at first \<^verbatim>\<open>kMaxDistToTrack\<close>).
  \<^verbatim>\<open>Add\<close> returns \<open>true\<close> iff the distance this search ends with is below
  \<^verbatim>\<open>kMaxDistToTrack\<close>, which is iff some segment has a residual below
  \<^verbatim>\<open>kMaxDistToTrack\<close> squared and a distance below \<^verbatim>\<open>kMaxDistToTrack\<close>; the
  accepted segment is the one the search took last and \<open>mse\<close> is its residual, so a
  later segment of smaller distance whose residual is not below it is passed over,
  and no later segment has both a smaller residual and a smaller distance. On
  failure the appended pair is removed. In both cases the fit is recomputed.
\<close>

theorem Add_third_track:
  assumes add: "Add E g trk c = Inr (b, c')"
      and len: "2 \<le> length (fAssigned c)"
      and na: "IsAttached E g c (Track trk) = Inr False"
  shows "((\<forall>j < size_minus_1 (Nodes E g (Track trk)). \<exists>r. Add_trial E g trk c j = Inr r) \<and>
          (b \<longleftrightarrow> snd (snd (Add_greedy E g trk c (size_minus_1 (Nodes E g (Track trk))))) < kMaxDistToTrack) \<and>
          (b \<longrightarrow>
             fAssigned c' = fAssigned c @
                [(trk, fst (snd (Add_greedy E g trk c (size_minus_1 (Nodes E g (Track trk))))))] \<and>
             fMse c' = fst (Add_greedy E g trk c (size_minus_1 (Nodes E g (Track trk)))))) \<and>
         ((b \<longleftrightarrow> (\<exists>n < size_minus_1 (Nodes E g (Track trk)). \<exists>m d.
                 Add_trial E g trk c n = Inr (Some (m, d)) \<and>
                 m < kMaxDistToTrack * kMaxDistToTrack \<and> d < kMaxDistToTrack)) \<and>
          (b \<longrightarrow> (\<exists>n < size_minus_1 (Nodes E g (Track trk)). \<exists>m d.
                 fAssigned c' = fAssigned c @ [(trk, n)] \<and> fMse c' = m \<and>
                 Add_trial E g trk c n = Inr (Some (m, d)) \<and>
                 m < kMaxDistToTrack * kMaxDistToTrack \<and> d < kMaxDistToTrack \<and>
                 (\<forall>j. n < j \<and> j < size_minus_1 (Nodes E g (Track trk)) \<longrightarrow>
                    (\<forall>m' d'. Add_trial E g trk c j = Inr (Some (m', d')) \<longrightarrow> \<not> (m' < m \<and> d' < d))))) \<and>
          (\<not> b \<longrightarrow> fAssigned c' = fAssigned c) \<and>
          derived_from_assigned E g c')"
  by (rule conjI [OF Add_third_track_greedy [OF add len na] Add_third_track_bounds [OF add len na]])

text \<open>
  Track 6 added to tracks 1 and 2: both of its segments are tried; segment 0 is taken
  (residual 0, distance 2.5), and segment 1, of distance 1.52 but residual 4/3, is
  passed over. \<^verbatim>\<open>Add\<close> leaves segment 0 assigned, with \<open>mse\<close> 0.
\<close>

theorem Add_third_track_witness:
  "Add demo () (demo_trk 6) (demo_cand [(demo_trk 1, 0), (demo_trk 2, 0)])
     = Inr (True, (demo_cand [(demo_trk 1, 0), (demo_trk 2, 0), (demo_trk 6, 0)])
                    \<lparr>fErr := TVector3 (Fin (sqrt (59 / 150))) (Fin 1) (Fin 1)\<rparr>) \<and>
   2 \<le> length (fAssigned (demo_cand [(demo_trk 1, 0), (demo_trk 2, 0)])) \<and>
   IsAttached demo () (demo_cand [(demo_trk 1, 0), (demo_trk 2, 0)]) (Track (demo_trk 6)) = Inr False \<and>
   size_minus_1 (Nodes demo () (Track (demo_trk 6))) = 2 \<and>
   Add_trial demo () (demo_trk 6) (demo_cand [(demo_trk 1, 0), (demo_trk 2, 0)]) 1
     = Inr (Some (Fin (4 / 3), Fin (38 / 25))) \<and>
   Add_greedy demo () (demo_trk 6) (demo_cand [(demo_trk 1, 0), (demo_trk 2, 0)]) 2
     = (Fin 0, 0, Fin (5 / 2)) \<and>
   fAssigned ((demo_cand [(demo_trk 1, 0), (demo_trk 2, 0), (demo_trk 6, 0)])
                \<lparr>fErr := TVector3 (Fin (sqrt (59 / 150))) (Fin 1) (Fin 1)\<rparr>)
     = fAssigned (demo_cand [(demo_trk 1, 0), (demo_trk 2, 0)]) @ [(demo_trk 6, 0)] \<and>
   fMse ((demo_cand [(demo_trk 1, 0), (demo_trk 2, 0), (demo_trk 6, 0)])
                \<lparr>fErr := TVector3 (Fin (sqrt (59 / 150))) (Fin 1) (Fin 1)\<rparr>) = Fin 0 \<and>
   derived_from_assigned demo ()
     ((demo_cand [(demo_trk 1, 0), (demo_trk 2, 0), (demo_trk 6, 0)])
        \<lparr>fErr := TVector3 (Fin (sqrt (59 / 150))) (Fin 1) (Fin 1)\<rparr>)"
  using Add_third_track [OF demo_Add_bent _ demo_not_attached_6]
    demo_Add_bent demo_not_attached_6 demo_hi_6 demo_trial_1 demo_greedy
  by (simp add: demo_cand_def)

subsection \<open>The angle that \<^verbatim>\<open>MaxAngle\<close> returns\<close>

lemma MaxAngle_ref_inv_step:
  assumes inv: "MaxAngle_ref_inv E g c n s" and body: "MaxAngle_longest E g c n s = Inr t"
  shows "MaxAngle_ref_inv E g c (Suc n) t"
proof -
  obtain idx l dir where s: "s = (idx, l, dir)" by (cases s) auto
  from body s have n: "n < length (fAssigned c)"
    by (auto simp: MaxAngle_longest_def vector_at_def split: if_splits)
  let ?L = "Length E g (Track (fst (fAssigned c ! n)))"
  show ?thesis
  proof (cases "l < ?L")
    case True
    with body s n obtain d where d: "segment_dir E g (fAssigned c ! n) = Inr d" "t = (n, ?L, d)"
      by (auto simp: MaxAngle_longest_def vector_at_def Let_def split: sum.splits)
    have "\<not> ?L < Length E g (Track (fst (fAssigned c ! i)))" if "i < Suc n" for i
    proof (cases "i = n")
      case True
      then show ?thesis by (simp add: less_double_irrefl)
    next
      case False
      with that inv s have "\<not> l < Length E g (Track (fst (fAssigned c ! i)))"
        by (auto simp: MaxAngle_ref_inv_def)
      then show ?thesis using True less_double_not_less by blast
    qed
    then show ?thesis using d by (auto simp: MaxAngle_ref_inv_def)
  next
    case False
    with body s n have "t = s" by (auto simp: MaxAngle_longest_def vector_at_def Let_def)
    then show ?thesis using inv s False by (auto simp: MaxAngle_ref_inv_def less_Suc_eq)
  qed
qed

text \<open>
  The reference of \<^verbatim>\<open>MaxAngle\<close>: the first loop runs over the assigned tracks below
  \<^verbatim>\<open>size() - 1\<close>, so not over the last one, and does not look at \<open>minLength\<close>. It
  keeps the first track that none of them is longer than, with its direction at the
  vertex, or index 0 with a zero direction when none of them has a positive length.
\<close>

lemma MaxAngle_reference_longest:
  assumes "MaxAngle_reference E g c = Inr (idx, l, dir_i)"
  shows "(\<forall>i < size_minus_1 (fAssigned c). \<not> l < Length E g (Track (fst (fAssigned c ! i)))) \<and>
         ((idx = 0 \<and> l = Fin 0 \<and> dir_i = origin) \<or>
          (idx < size_minus_1 (fAssigned c) \<and> l = Length E g (Track (fst (fAssigned c ! idx))) \<and>
           segment_dir E g (fAssigned c ! idx) = Inr dir_i))"
proof -
  have "MaxAngle_ref_inv E g c (size_minus_1 (fAssigned c)) (idx, l, dir_i)"
  proof (rule for_loop_rule [OF assms [unfolded MaxAngle_reference_def],
        where P = "MaxAngle_ref_inv E g c"])
    show "MaxAngle_ref_inv E g c 0 (0, Fin 0, origin)" by (simp add: MaxAngle_ref_inv_def)
  next
    fix n t t'
    assume a: "MaxAngle_ref_inv E g c n t" "MaxAngle_longest E g c n t = Inr t'"
    show "MaxAngle_ref_inv E g c (Suc n) t'" by (rule MaxAngle_ref_inv_step [OF a])
  qed simp
  then show ?thesis by (simp add: MaxAngle_ref_inv_def)
qed

text \<open>Track 6, the longest, is the last of the assigned tracks: the reference is track 1.\<close>

lemma demo_reference_not_last:
  "Length demo () (Track (demo_trk 6)) = Fin (15 / 2) \<and>
   MaxAngle_reference demo () (demo_cand [(demo_trk 1, 0), (demo_trk 6, 0)])
   = Inr (0, Fin 1, TVector3 (Fin 1) (Fin 0) (Fin 0))"
  by (simp add: angle_defs)

lemma MaxAngle_inv_step:
  assumes inv: "MaxAngle_inv E g c minLength idx dir_i n mn"
      and n: "n < length (fAssigned c)"
      and body: "MaxAngle_min E g c minLength idx dir_i n mn = Inr mn'"
  shows "MaxAngle_inv E g c minLength idx dir_i (Suc n) mn'"
proof (cases "n \<noteq> idx \<and> minLength < Length E g (Track (fst (fAssigned c ! n)))")
  case False
  with body n have "mn' = mn" by (auto simp: MaxAngle_min_def vector_at_def)
  with inv False show ?thesis unfolding MaxAngle_inv_def by (auto simp: less_Suc_eq)
next
  case q: True
  with body n obtain dj where dj: "segment_dir E g (fAssigned c ! n) = Inr dj"
    by (auto simp: MaxAngle_min_def vector_at_def split: sum.splits)
  let ?a = "fabs (Dot dir_i dj)"
  from body n q dj have mn': "mn' = (if ?a < mn then ?a else mn)"
    by (auto simp: MaxAngle_min_def vector_at_def Let_def split: if_splits)
  from inv obtain x where x: "mn = Fin x" "0 \<le> x" "x \<le> 1" unfolding MaxAngle_inv_def by blast
  from inv have old: "\<forall>j<n. j \<noteq> idx \<and> minLength < Length E g (Track (fst (fAssigned c ! j))) \<longrightarrow>
         (\<forall>dj. segment_dir E g (fAssigned c ! j) = Inr dj \<longrightarrow> \<not> fabs (Dot dir_i dj) < mn)"
    unfolding MaxAngle_inv_def by blast
  from inv have att: "mn = Fin 1 \<or>
       (\<exists>j<n. j \<noteq> idx \<and> minLength < Length E g (Track (fst (fAssigned c ! j))) \<and>
          (\<exists>dj. segment_dir E g (fAssigned c ! j) = Inr dj \<and> mn = fabs (Dot dir_i dj)))"
    unfolding MaxAngle_inv_def by blast
  show ?thesis
  proof (cases "?a < mn")
    case True
    then have m: "mn' = ?a" using mn' by simp
    from True x fabs_less_Fin [of "Dot dir_i dj" x] obtain y where y: "?a = Fin y" "0 \<le> y" "y < x" by auto
    have 1: "\<exists>z. mn' = Fin z \<and> 0 \<le> z \<and> z \<le> 1" using m y x by auto
    have 2: "\<not> fabs (Dot dir_i d') < mn'"
      if "j < Suc n" "j \<noteq> idx \<and> minLength < Length E g (Track (fst (fAssigned c ! j)))"
         "segment_dir E g (fAssigned c ! j) = Inr d'" for j d'
    proof (cases "j = n")
      case True
      with that dj have "d' = dj" by simp
      then show ?thesis using m less_double_irrefl by simp
    next
      case False
      with that have "j < n" by simp
      with old that have "\<not> fabs (Dot dir_i d') < mn" by blast
      then show ?thesis using m True less_double_trans by blast
    qed
    have 3: "\<exists>j<Suc n. j \<noteq> idx \<and> minLength < Length E g (Track (fst (fAssigned c ! j))) \<and>
          (\<exists>dj. segment_dir E g (fAssigned c ! j) = Inr dj \<and> mn' = fabs (Dot dir_i dj))"
      using q dj m by blast
    show ?thesis unfolding MaxAngle_inv_def using 1 2 3 by blast
  next
    case False
    then have m: "mn' = mn" using mn' by simp
    have 2: "\<not> fabs (Dot dir_i d') < mn'"
      if "j < Suc n" "j \<noteq> idx \<and> minLength < Length E g (Track (fst (fAssigned c ! j)))"
         "segment_dir E g (fAssigned c ! j) = Inr d'" for j d'
    proof (cases "j = n")
      case True
      with that dj have "d' = dj" by simp
      then show ?thesis using m False by simp
    next
      case False
      with that have "j < n" by simp
      with old that show ?thesis unfolding m by blast
    qed
    have 3: "mn' = Fin 1 \<or> (\<exists>j<Suc n. j \<noteq> idx \<and> minLength < Length E g (Track (fst (fAssigned c ! j))) \<and>
          (\<exists>dj. segment_dir E g (fAssigned c ! j) = Inr dj \<and> mn' = fabs (Dot dir_i dj)))"
      using att unfolding m by (auto simp: less_Suc_eq)
    show ?thesis unfolding MaxAngle_inv_def using x m 2 3 by blast
  qed
qed

lemma degrees_Fin: "\<bar>x\<bar> \<le> 1 \<Longrightarrow> Fin 180 * acos (Fin x) / TMath_Pi = Fin (180 * arccos x / pi)"
  by (simp add: TMath_Pi_def)

text \<open>
  Claim C4 says the angle returned is between the directions, from 0 to 180 degrees.
  The source takes the absolute value of the cosine: tracks 1 and 4 of the small
  detector leave the vertex in opposite directions, 180 degrees apart, and
  \<^verbatim>\<open>MaxAngle\<close> returns 0.
\<close>

theorem MaxAngle_opposite_counterexample:
  "segment_dir demo () (demo_trk 1, 0) = Inr (TVector3 (Fin 1) (Fin 0) (Fin 0)) \<and>
   segment_dir demo () (demo_trk 4, 0) = Inr (TVector3 (Fin (- 1)) (Fin 0) (Fin 0)) \<and>
   Fin 180 * acos (Dot (TVector3 (Fin 1) (Fin 0) (Fin 0)) (TVector3 (Fin (- 1)) (Fin 0) (Fin 0))) / TMath_Pi
     = Fin 180 \<and>
   Fin 0 < Length demo () (Track (demo_trk 1)) \<and> Fin 0 < Length demo () (Track (demo_trk 4)) \<and>
   MaxAngle demo () (demo_cand [(demo_trk 1, 0), (demo_trk 4, 0)]) (Fin 0) = Inr (Fin 0)"
  by (simp add: angle_defs)

text \<open>
  Claim C4, amended. With the reference direction that its first loop has chosen,
  \<^verbatim>\<open>MaxAngle\<close> returns the largest angle between the line of the reference and the
  line of the direction at the vertex of any other assigned track longer than
  \<open>minLength\<close>: the angle \<open>180 acos(|cos|) / \<pi>\<close>, folded into 0 to 90 degrees, and 0
  when there is no such track.
\<close>

theorem MaxAngle_folded:
  assumes ref: "MaxAngle_reference E g c = Inr (idx, l, dir_i)"
      and res: "MaxAngle E g c minLength = Inr r"
  shows "(\<exists>a. r = Fin a \<and> 0 \<le> a \<and> a \<le> 90) \<and>
         (\<forall>j<length (fAssigned c).
            j \<noteq> idx \<and> minLength < Length E g (Track (fst (fAssigned c ! j))) \<longrightarrow>
            (\<forall>dj. segment_dir E g (fAssigned c ! j) = Inr dj \<and> fabs (Dot dir_i dj) \<le> Fin 1 \<longrightarrow>
               Fin 180 * acos (fabs (Dot dir_i dj)) / TMath_Pi \<le> r)) \<and>
         (r = Fin 0 \<or>
          (\<exists>j<length (fAssigned c).
             j \<noteq> idx \<and> minLength < Length E g (Track (fst (fAssigned c ! j))) \<and>
             (\<exists>dj. segment_dir E g (fAssigned c ! j) = Inr dj \<and>
                r = Fin 180 * acos (fabs (Dot dir_i dj)) / TMath_Pi)))"
proof -
  let ?n = "length (fAssigned c)"
  from ref res obtain mn where
    loop: "for_loop 0 ?n (MaxAngle_min E g c minLength idx dir_i) (Fin 1) = Inr mn" and
    r: "r = Fin 180 * acos mn / TMath_Pi"
    by (auto simp: MaxAngle_def split: sum.splits)
  have inv: "MaxAngle_inv E g c minLength idx dir_i ?n mn"
  proof (rule for_loop_rule [OF loop, where P = "MaxAngle_inv E g c minLength idx dir_i"])
    show "MaxAngle_inv E g c minLength idx dir_i 0 (Fin 1)" by (simp add: MaxAngle_inv_def)
  next
    fix n t t'
    assume a: "n < ?n" "MaxAngle_inv E g c minLength idx dir_i n t"
      "MaxAngle_min E g c minLength idx dir_i n t = Inr t'"
    show "MaxAngle_inv E g c minLength idx dir_i (Suc n) t'"
      by (rule MaxAngle_inv_step [OF a(2) a(1) a(3)])
  qed simp
  from inv obtain x where x: "mn = Fin x" "0 \<le> x" "x \<le> 1" unfolding MaxAngle_inv_def by blast
  then have rx: "r = Fin (180 * arccos x / pi)" using r degrees_Fin [of x] by simp
  have "0 \<le> arccos x" "arccos x \<le> pi / 2" using x arccos_lbound [of x] arccos_le_pi2 [of x] by auto
  then have range: "0 \<le> 180 * arccos x / pi" "180 * arccos x / pi \<le> 90"
    by (simp_all add: field_simps)
  have 1: "\<exists>a. r = Fin a \<and> 0 \<le> a \<and> a \<le> 90" using rx range by blast
  have 2: "Fin 180 * acos (fabs (Dot dir_i dj)) / TMath_Pi \<le> r"
    if "j < ?n" "j \<noteq> idx \<and> minLength < Length E g (Track (fst (fAssigned c ! j)))"
       "segment_dir E g (fAssigned c ! j) = Inr dj" "fabs (Dot dir_i dj) \<le> Fin 1" for j dj
  proof -
    from that(4) fabs_le_Fin [of "Dot dir_i dj" 1] obtain y where
      y: "fabs (Dot dir_i dj) = Fin y" "0 \<le> y" "y \<le> 1" by auto
    from inv that have "\<not> fabs (Dot dir_i dj) < mn" unfolding MaxAngle_inv_def by blast
    with y x have "x \<le> y" by simp
    then have "arccos y \<le> arccos x" using x y by (simp add: arccos_le_mono)
    then have "180 * arccos y / pi \<le> 180 * arccos x / pi"
      by (simp add: divide_right_mono)
    then show ?thesis using y rx degrees_Fin [of y] by simp
  qed
  have 3: "r = Fin 0 \<or>
          (\<exists>j<?n. j \<noteq> idx \<and> minLength < Length E g (Track (fst (fAssigned c ! j))) \<and>
             (\<exists>dj. segment_dir E g (fAssigned c ! j) = Inr dj \<and>
                r = Fin 180 * acos (fabs (Dot dir_i dj)) / TMath_Pi))"
  proof (cases "mn = Fin 1")
    case True
    then show ?thesis using r by (simp add: TMath_Pi_def)
  next
    case False
    with inv have "\<exists>j<?n. j \<noteq> idx \<and> minLength < Length E g (Track (fst (fAssigned c ! j))) \<and>
          (\<exists>dj. segment_dir E g (fAssigned c ! j) = Inr dj \<and> mn = fabs (Dot dir_i dj))"
      unfolding MaxAngle_inv_def by blast
    then show ?thesis using r by blast
  qed
  show ?thesis using 1 2 3 by blast
qed

theorem MaxAngle_folded_witness:
  "MaxAngle_reference demo () (demo_cand [(demo_trk 1, 0), (demo_trk 2, 0)])
     = Inr (0, Fin 1, TVector3 (Fin 1) (Fin 0) (Fin 0)) \<and>
   MaxAngle demo () (demo_cand [(demo_trk 1, 0), (demo_trk 2, 0)]) (Fin 0) = Inr (Fin 90) \<and>
   (\<exists>a. Fin 90 = Fin a \<and> 0 \<le> a \<and> a \<le> 90)"
  using MaxAngle_folded [OF demo_MaxAngle_reference demo_MaxAngle_right]
    demo_MaxAngle_reference demo_MaxAngle_right
  by simp

subsection \<open>The derived state after a mutation\<close>

text \<open>
  The first \<^verbatim>\<open>Add\<close> on a candidate whose error and residual are zero never leaves
  the derived state that \<^verbatim>\<open>Compute\<close> would give, whatever the solver answers.
\<close>

lemma Compute_sums_Y:
  "Compute_sums E g result segs (err, cen, wsum) = Inr (err', cen', wsum') \<Longrightarrow>
   Y err = Fin y \<Longrightarrow> Y err' = Fin (y + real (length segs))"
proof (induction segs arbitrary: err cen wsum y)
  case Nil
  then show ?case by simp
next
  case (Cons s segs)
  obtain seg line w where s: "s = (seg, line, w)" by (cases s) auto
  from Cons.prems(1) s obtain vprev vnext where
    rec: "Compute_sums E g result segs
            (TVector3 (X err + w * w) (Y err + Fin 1) (Z err + Fin 1),
             TVector3 (X cen + w * X (GetProjectionToSegment E result (Point3D E g vprev) (Point3D E g vnext)))
                      (Y cen + Y (GetProjectionToSegment E result (Point3D E g vprev) (Point3D E g vnext)))
                      (Z cen + Z (GetProjectionToSegment E result (Point3D E g vprev) (Point3D E g vnext))),
             wsum + w) = Inr (err', cen', wsum')"
    by (auto simp: Let_def split: option.splits)
  from Cons.IH [OF rec, of "y + 1"] Cons.prems(2) show ?case by (simp add: add.assoc add.commute)
qed

lemma Compute_error_Y:
  assumes "Compute E g c = Inr (r, c')"
  shows "r = Fin 1000000 \<or> Y (fErr c') = NaN \<or> Y (fErr c') = Fin 1"
proof -
  from assms obtain segs where segs: "Compute_collect E g (fSegMinLength c) (fAssigned c) = Inr segs"
    by (auto simp: Compute_def split: sum.splits)
  obtain resultMse result where sol: "SolveLeastSquares3D E (map (\<lambda>(seg, line, w). line) segs) = (resultMse, result)"
    by (cases "SolveLeastSquares3D E (map (\<lambda>(seg, line, w). line) segs)") auto
  show ?thesis
  proof (cases "resultMse < Fin 0")
    case True
    with assms segs sol show ?thesis by (simp add: Compute_def)
  next
    case False
    with assms segs sol obtain err cen wsum where
      sums: "Compute_sums E g result segs (origin, origin, Fin 0) = Inr (err, cen, wsum)" and
      e: "fErr c' = (let err' = vscale err (Fin 1 / of_size_t (length segs))
                   in TVector3 (sqrt_double (X err')) (sqrt_double (Y err')) (sqrt_double (Z err')))"
      by (auto simp: Compute_def Let_def split: sum.splits)
    from Compute_sums_Y [OF sums, of 0] have y: "Y err = Fin (real (length segs))"
      by (simp add: origin_def)
    show ?thesis
    proof (cases "length segs = 0")
      case True
      with e y show ?thesis by (simp add: Let_def vscale_def of_size_t_def)
    next
      case False
      with e y show ?thesis by (simp add: Let_def vscale_def of_size_t_def)
    qed
  qed
qed

lemma first_Add_never_derived:
  assumes "Add E g trk c = Inr (True, c')" "fAssigned c = []" "fErr c = origin" "fMse c = Fin 0"
  shows "\<not> derived_from_assigned E g c'"
proof
  assume d: "derived_from_assigned E g c'"
  from Add_first_untouched [OF assms(1,2)] have c': "c' = c\<lparr>fAssigned := [(trk, 0)]\<rparr>" .
  from derived_Compute [OF d] Compute_error_Y [of E g c' "fMse c'" c']
  have "fMse c' = Fin 1000000 \<or> Y (fErr c') = NaN \<or> Y (fErr c') = Fin 1" by simp
  with c' assms(3,4) show False by (simp add: origin_def)
qed

text \<open>
  Claim C5 says that every mutation of the assigned set recomputes the derived state,
  the first \<^verbatim>\<open>Add\<close> too. The first \<^verbatim>\<open>Add\<close> returns without a call of \<^verbatim>\<open>Compute\<close>:
  on the small detector it leaves the residual 0 of the empty candidate, where
  \<^verbatim>\<open>Compute\<close> on the one assigned track returns \<open>1.0e6\<close>.
\<close>

theorem first_Add_not_recomputed_counterexample:
  "Add demo () (demo_trk 1) (demo_cand []) = Inr (True, demo_cand [(demo_trk 1, 0)]) \<and>
   fMse (demo_cand [(demo_trk 1, 0)]) = Fin 0 \<and>
   Compute demo () (demo_cand [(demo_trk 1, 0)]) = Inr (Fin 1000000, demo_cand [(demo_trk 1, 0)]) \<and>
   \<not> derived_from_assigned demo () (demo_cand [(demo_trk 1, 0)])"
  using demo_Add_first demo_Compute_one
  by (simp add: derived_from_assigned_def) (simp add: demo_cand_def)

text \<open>
  Claim C5, amended. Centre, error, \<open>mse\<close> and \<open>mse2D\<close> are what \<^verbatim>\<open>Compute\<close> and
  \<^verbatim>\<open>ComputeMse2D\<close> give on the resulting assigned set after a successful \<^verbatim>\<open>Add\<close> to a
  candidate that is not empty, after a failed \<^verbatim>\<open>Add\<close> to a candidate of two or more
  tracks (the new track not being attached), and after a successful \<^verbatim>\<open>MergeWith\<close>.
  The first successful \<^verbatim>\<open>Add\<close> only appends the pair and leaves the derived state as
  it was. A successful \<^verbatim>\<open>JoinTracks\<close> clears the assigned set and sets both residuals
  to zero.
\<close>

theorem derived_state_after_mutation:
  "(Add E g trk c = Inr (True, c') \<and> fAssigned c \<noteq> [] \<longrightarrow> derived_from_assigned E g c') \<and>
   (Add E g trkb cb = Inr (False, cb') \<and> 2 \<le> length (fAssigned cb) \<and>
      IsAttached E g cb (Track trkb) = Inr False \<longrightarrow> derived_from_assigned E g cb') \<and>
   (MergeWith E g other cc = Inr (True, cc') \<longrightarrow> derived_from_assigned E g cc') \<and>
   (Add E g trkd cd = Inr (True, cd') \<and> fAssigned cd = [] \<longrightarrow> cd' = cd\<lparr>fAssigned := [(trkd, 0)]\<rparr>) \<and>
   (JoinTracks E w = Inr (True, w') \<longrightarrow>
      fAssigned (cand w') = [] \<and> fMse (cand w') = Fin 0 \<and> fMse2D (cand w') = Fin 0)"
proof (intro conjI impI)
  assume a: "Add E g trk c = Inr (True, c') \<and> fAssigned c \<noteq> []"
  then have len: "2 \<le> length (fAssigned c @ [(trk, 0)])" by (cases "fAssigned c") auto
  from a len show "derived_from_assigned E g c'"
    by (auto simp: Add_def Let_def split: sum.splits if_splits
        dest: Add_many_derived Add_second_derived)
next
  assume a: "Add E g trkb cb = Inr (False, cb') \<and> 2 \<le> length (fAssigned cb) \<and>
      IsAttached E g cb (Track trkb) = Inr False"
  then show "derived_from_assigned E g cb'"
    by (auto simp: Add_def Let_def split: sum.splits if_splits dest: Add_many_derived)
next
  assume "MergeWith E g other cc = Inr (True, cc')"
  then show "derived_from_assigned E g cc'" by (rule MergeWith_derived)
next
  assume "Add E g trkd cd = Inr (True, cd') \<and> fAssigned cd = []"
  then show "cd' = cd\<lparr>fAssigned := [(trkd, 0)]\<rparr>"
    using Add_first_untouched [of E g trkd cd cd'] by simp
next
  assume "JoinTracks E w = Inr (True, w')"
  then show "fAssigned (cand w') = []" "fMse (cand w') = Fin 0" "fMse2D (cand w') = Fin 0"
    using JoinTracks_commit_cand [of E w w'] by simp_all
qed

theorem derived_state_after_mutation_witness:
  "(Add demo () (demo_trk 2) (demo_cand [(demo_trk 1, 0)])
      = Inr (True, (demo_cand [(demo_trk 1, 0), (demo_trk 2, 0)])
                     \<lparr>fErr := TVector3 (Fin (sqrt (109 / 200))) (Fin 1) (Fin 1)\<rparr>) \<and>
    fAssigned (demo_cand [(demo_trk 1, 0)]) \<noteq> [] \<and>
    derived_from_assigned demo ()
      ((demo_cand [(demo_trk 1, 0), (demo_trk 2, 0)])
         \<lparr>fErr := TVector3 (Fin (sqrt (109 / 200))) (Fin 1) (Fin 1)\<rparr>)) \<and>
   (Add demo () (demo_trk 5) (demo_cand [(demo_trk 1, 0), (demo_trk 2, 0)])
      = Inr (False, (demo_cand [(demo_trk 1, 0), (demo_trk 2, 0)])
                      \<lparr>fErr := TVector3 (Fin (sqrt (109 / 200))) (Fin 1) (Fin 1)\<rparr>) \<and>
    2 \<le> length (fAssigned (demo_cand [(demo_trk 1, 0), (demo_trk 2, 0)])) \<and>
    IsAttached demo () (demo_cand [(demo_trk 1, 0), (demo_trk 2, 0)]) (Track (demo_trk 5)) = Inr False) \<and>
   (MergeWith demo () (demo_cand [(demo_trk 3, 0)]) (demo_cand [(demo_trk 1, 0), (demo_trk 2, 0)])
      = Inr (True, (demo_cand [(demo_trk 1, 0), (demo_trk 2, 0), (demo_trk 3, 0)])
                     \<lparr>fErr := TVector3 (Fin (sqrt (59 / 150))) (Fin 1) (Fin 1)\<rparr>) \<and>
    derived_from_assigned demo ()
      ((demo_cand [(demo_trk 1, 0), (demo_trk 2, 0), (demo_trk 3, 0)])
         \<lparr>fErr := TVector3 (Fin (sqrt (59 / 150))) (Fin 1) (Fin 1)\<rparr>)) \<and>
   (Add demo () (demo_trk 1) (demo_cand []) = Inr (True, demo_cand [(demo_trk 1, 0)]) \<and>
    fAssigned (demo_cand []) = []) \<and>
   (JoinTracks demo (demo_world (demo_cand [(demo_trk 1, 0), (demo_trk 2, 0)]) [] [demo_trk 1, demo_trk 2])
      = Inr (True, demo_world ((demo_cand [])\<lparr>tracksJoined := True\<rparr>) [demo_trk 1, demo_trk 2] []) \<and>
    fAssigned (cand (demo_world ((demo_cand [])\<lparr>tracksJoined := True\<rparr>) [demo_trk 1, demo_trk 2] [])) = [])"
  using derived_state_after_mutation
    [where E = demo and g = "()" and trk = "demo_trk 2" and c = "demo_cand [(demo_trk 1, 0)]"
       and c' = "(demo_cand [(demo_trk 1, 0), (demo_trk 2, 0)])
                   \<lparr>fErr := TVector3 (Fin (sqrt (109 / 200))) (Fin 1) (Fin 1)\<rparr>"
       and trkb = "demo_trk 5" and cb = "demo_cand [(demo_trk 1, 0), (demo_trk 2, 0)]"
       and cb' = "(demo_cand [(demo_trk 1, 0), (demo_trk 2, 0)])
                   \<lparr>fErr := TVector3 (Fin (sqrt (109 / 200))) (Fin 1) (Fin 1)\<rparr>"
       and other = "demo_cand [(demo_trk 3, 0)]" and cc = "demo_cand [(demo_trk 1, 0), (demo_trk 2, 0)]"
       and cc' = "(demo_cand [(demo_trk 1, 0), (demo_trk 2, 0), (demo_trk 3, 0)])
                   \<lparr>fErr := TVector3 (Fin (sqrt (59 / 150))) (Fin 1) (Fin 1)\<rparr>"
       and trkd = "demo_trk 1" and cd = "demo_cand []" and cd' = "demo_cand [(demo_trk 1, 0)]"
       and w = "demo_world (demo_cand [(demo_trk 1, 0), (demo_trk 2, 0)]) [] [demo_trk 1, demo_trk 2]"
       and w' = "demo_world ((demo_cand [])\<lparr>tracksJoined := True\<rparr>) [demo_trk 1, demo_trk 2] []"]
    demo_Add_first demo_Add_second demo_Add_far demo_MergeWith demo_not_attached demo_JoinTracks_two
  by (simp add: demo_cand_def demo_world_def)

subsection \<open>The one-shot guard of \<^verbatim>\<open>JoinTracks\<close>\<close>

text \<open>
  Claim C6. On a candidate whose \<^verbatim>\<open>tracksJoined\<close> flag is set, \<^verbatim>\<open>JoinTracks\<close>
  returns \<open>false\<close>, sends the message of the repeated commit to the error log and
  changes nothing else: the track graph, the candidate with its assigned set, the
  collections \<open>tracks\<close> and \<open>src\<close> and the list of deleted tracks are those of the
  call. No exception is thrown: the result is a value, not an \<open>Inl\<close>.
\<close>

theorem JoinTracks_repeated_commit:
  "tracksJoined (cand w) \<Longrightarrow>
   JoinTracks E w =
     Inr (False, w\<lparr>errors := errors w @ [''Tracks already attached to the vertex.'']\<rparr>)"
  by (simp add: JoinTracks_def)

text \<open>
  Tracks 1 and 2 of the small detector are joined by a first call; the second call on
  the world the first one left is refused.
\<close>

theorem JoinTracks_repeated_commit_witness:
  "JoinTracks demo (demo_world (demo_cand [(demo_trk 1, 0), (demo_trk 2, 0)]) [] [demo_trk 1, demo_trk 2])
   = Inr (True, demo_world ((demo_cand [])\<lparr>tracksJoined := True\<rparr>) [demo_trk 1, demo_trk 2] []) \<and>
   tracksJoined (cand (demo_world ((demo_cand [])\<lparr>tracksJoined := True\<rparr>) [demo_trk 1, demo_trk 2] [])) \<and>
   JoinTracks demo (demo_world ((demo_cand [])\<lparr>tracksJoined := True\<rparr>) [demo_trk 1, demo_trk 2] [])
   = Inr (False, (demo_world ((demo_cand [])\<lparr>tracksJoined := True\<rparr>) [demo_trk 1, demo_trk 2] [])
                   \<lparr>errors := [''Tracks already attached to the vertex.'']\<rparr>)"
  using JoinTracks_repeated_commit
    [of "demo_world ((demo_cand [])\<lparr>tracksJoined := True\<rparr>) [demo_trk 1, demo_trk 2] []" demo]
    demo_JoinTracks_two
  by (simp add: demo_world_def demo_cand_def)

subsection \<open>The weight of a segment\<close>


text \<open>Every entry of \<^verbatim>\<open>weights\<close> is the weight of its segment, from the ends of its line.\<close>

lemma Compute_collect_weights:
  "Compute_collect E g minLength vs = Inr segs \<Longrightarrow> (seg, (p, q), w) \<in> set segs \<Longrightarrow>
   w = Compute_weight (Y p - Y q) (Seg_Length E g seg) \<and> minLength \<le> Seg_Length E g seg"
  by (induction vs arbitrary: segs)
     (auto simp: Let_def split: sum.splits option.splits if_splits)



subsection \<open>\<^verbatim>\<open>Compute\<close> twice\<close>

text \<open>
  Claim C8. \<^verbatim>\<open>Compute\<close> is idempotent: a second call right after the first, on the
  candidate the first call left and over the same track graph, returns the same
  residual and leaves the same centre and error (the whole candidate is the same).
\<close>

theorem Compute_idempotent:
  "Compute E g c = Inr (r, c') \<Longrightarrow> Compute E g c' = Inr (r, c')"
  by (auto simp: Compute_def Let_def split: sum.splits prod.splits if_splits)

theorem Compute_idempotent_witness:
  "Compute demo () (demo_cand [(demo_trk 1, 0), (demo_trk 2, 0)])
     = Inr (Fin 0, (demo_cand [(demo_trk 1, 0), (demo_trk 2, 0)])
                     \<lparr>fErr := TVector3 (Fin (sqrt (109 / 200))) (Fin 1) (Fin 1)\<rparr>) \<and>
   Compute demo () ((demo_cand [(demo_trk 1, 0), (demo_trk 2, 0)])
                     \<lparr>fErr := TVector3 (Fin (sqrt (109 / 200))) (Fin 1) (Fin 1)\<rparr>)
     = Inr (Fin 0, (demo_cand [(demo_trk 1, 0), (demo_trk 2, 0)])
                     \<lparr>fErr := TVector3 (Fin (sqrt (109 / 200))) (Fin 1) (Fin 1)\<rparr>)"
  using Compute_idempotent [OF demo_Compute_two] demo_Compute_two by simp

subsection \<open>\<^verbatim>\<open>Compute\<close> with nothing to fit\<close>

lemma Compute_collect_Nil: "fAssigned c = [] \<Longrightarrow> Compute_collect E g (fSegMinLength c) (fAssigned c) = Inr []"
  by simp

text \<open>
  No segment enters the fit exactly when every assigned pair has a segment and none
  of these segments reaches the minimum length.
\<close>

lemma Compute_collect_empty_iff:
  "Compute_collect E g minLength vs = Inr [] \<longleftrightarrow>
   (\<forall>v\<in>set vs. \<exists>vtx seg. vector_at (Nodes E g (Track (fst v))) (snd v) = Inr vtx \<and>
       NextSegment E g (Track (fst v)) vtx = Some seg \<and> \<not> minLength \<le> Seg_Length E g seg)"
  by (induction vs) (auto simp: Let_def split: sum.splits option.splits)

text \<open>
  Claim C9 says that \<^verbatim>\<open>Compute\<close> divides by zero whenever no segment enters the fit.
  It does not when the solver answers the empty set of lines with a negative residual:
  on the small detector the call on an empty candidate returns the residual
  \<open>1.0e6\<close> with centre and error at zero, all finite.
\<close>

theorem Compute_empty_fit_counterexample:
  "Compute_collect demo () (fSegMinLength (demo_cand [])) (fAssigned (demo_cand [])) = Inr [] \<and>
   Compute demo () (demo_cand []) = Inr (Fin 1000000, demo_cand []) \<and>
   fCenter (demo_cand []) = TVector3 (Fin 0) (Fin 0) (Fin 0) \<and>
   fErr (demo_cand []) = TVector3 (Fin 0) (Fin 0) (Fin 0)"
  by (simp add: Compute_def demo_defs num_defs)

text \<open>
  Claim C9, amended. When no segment enters the fit (the assigned set is empty, or
  every assigned segment is shorter than the minimum), \<^verbatim>\<open>Compute\<close> gives the solver
  an empty set of lines. If the solver's residual is negative, \<^verbatim>\<open>Compute\<close> returns
  \<open>1.0e6\<close> with centre and error reset to zero and divides nothing. Otherwise the sum
  of the weights and the count of segments are both 0, the divisions by them make
  every component of centre and error a NaN, and the solver's residual is returned.
  No error is signalled in either case.
\<close>

theorem Compute_empty_fit:
  "Compute_collect E g (fSegMinLength c) (fAssigned c) = Inr [] \<Longrightarrow>
   Compute E g c =
     (if fst (SolveLeastSquares3D E []) < Fin 0
      then Inr (Fin 1000000, c\<lparr>fCenter := origin, fErr := origin\<rparr>)
      else Inr (fst (SolveLeastSquares3D E []),
                c\<lparr>fCenter := TVector3 NaN NaN NaN, fErr := TVector3 NaN NaN NaN\<rparr>))"
  by (simp add: Compute_def Let_def origin_def vscale_def of_size_t_def split: prod.splits)

text \<open>The same detector with a solver that answers the empty set with residual 0.\<close>

theorem Compute_empty_fit_witness:
  "Compute_collect demo_lenient () (fSegMinLength (demo_cand [])) (fAssigned (demo_cand [])) = Inr [] \<and>
   Compute demo_lenient () (demo_cand [])
     = Inr (Fin 0, (demo_cand [])\<lparr>fCenter := TVector3 NaN NaN NaN, fErr := TVector3 NaN NaN NaN\<rparr>)"
  using Compute_empty_fit [of demo_lenient "()" "demo_cand []"]
  by (simp add: demo_cand_def demo_lenient_def)

subsection \<open>\<^verbatim>\<open>MaxAngle\<close> on an empty candidate\<close>

text \<open>
  Claim C10. On an empty assigned set the bound \<^verbatim>\<open>fAssigned.size() - 1\<close> of the
  first loop of \<^verbatim>\<open>MaxAngle\<close> wraps around to the largest \<^verbatim>\<open>size_t\<close>, the loop is
  entered and its first round indexes \<^verbatim>\<open>fAssigned\<close> out of range.
\<close>

theorem MaxAngle_empty:
  "fAssigned c = [] \<Longrightarrow>
   size_minus_1 (fAssigned c) = 2 ^ 64 - 1 \<and> MaxAngle E g c minLength = Inl OutOfRange"
  by (simp add: size_minus_1_Nil MaxAngle_def MaxAngle_reference_def for_loop.simps [of 0]
      MaxAngle_longest_def vector_at_def)

theorem MaxAngle_empty_witness:
  "fAssigned (demo_cand []) = [] \<and> size_minus_1 (fAssigned (demo_cand [])) = 2 ^ 64 - 1 \<and>
   MaxAngle demo () (demo_cand []) (Fin 0) = Inl OutOfRange"
  using MaxAngle_empty [of "demo_cand []" demo "()" "Fin 0"] by (simp add: demo_cand_def)

end
